theory Spec2Isabelle
  imports Main "HOL-Library.Log_Nat"
begin

section \<open>The memorizing wrapper of \<^verbatim>\<open>packages/memorize/src/internal/memorize.ts\<close>\<close>

text \<open>
  \<^verbatim>\<open>withMemorized(fn, options)\<close> closes over two variables, \<^verbatim>\<open>memory\<close> (an object used
  as a dictionary from key to \<^verbatim>\<open>{ value, expiration }\<close>) and \<^verbatim>\<open>cacheOrder\<close> (an array of
  keys), and returns \<^verbatim>\<open>memorizedFunction\<close> together with \<^verbatim>\<open>importMemory\<close>,
  \<^verbatim>\<open>exportMemory\<close> and \<^verbatim>\<open>clearMemory\<close>. The embedding keeps the objects that
  \<^verbatim>\<open>memory\<close> can refer to in a heap, passes the heap and the two variables explicitly,
  reads \<^verbatim>\<open>Date.now()\<close> from arguments, and turns a rejected promise into a value.
\<close>

subsection \<open>JavaScript values\<close>

text \<open>
  A result of the wrapped function is either \<^verbatim>\<open>undefined\<close> or some other value, which the
  embedding leaves opaque.
\<close>

datatype 'r js = Undefined | Val 'r

subsection \<open>Numbers\<close>

text \<open>
  \<^verbatim>\<open>ttl\<close>, \<^verbatim>\<open>maxCacheSize\<close> and \<^verbatim>\<open>expiration\<close> have type \<^verbatim>\<open>number\<close>: a double. A
  finite double is represented by the rational it denotes (the two zeros are one value:
  the code only adds, compares and tests truthiness, which do not tell them apart).
\<close>

datatype number = Num rat | Infinity | NegInfinity | NaN

text \<open>\<open>ilog2 q\<close> is \<open>\<lfloor>log\<^sub>2 q\<rfloor>\<close> for \<open>q > 0\<close>.\<close>

definition ilog2 :: "rat \<Rightarrow> int" where
  "ilog2 q = (case quotient_of q of (a, b) \<Rightarrow>
       let d = bitlen a - bitlen b in if 2 powi d \<le> q then d else d - 1)"

text \<open>Rounding to the nearest integer, ties to the even one.\<close>

definition round_even :: "rat \<Rightarrow> int" where
  "round_even x = (let n = \<lfloor>x\<rfloor>; d = x - of_int n
                   in if d < 1 / 2 then n else if 1 / 2 < d then n + 1
                      else if even n then n else n + 1)"

text \<open>
  The nearest point of the grid of doubles: 53 significant bits, exponents from
  \<open>- 1022\<close> (below which the spacing stays \<open>2 powi (- 1074)\<close>).
\<close>

definition nearest :: "rat \<Rightarrow> rat" where
  "nearest q = (let u = 2 powi (max (ilog2 \<bar>q\<bar>) (- 1022) - 52)
                in of_int (round_even (q / u)) * u)"

definition overflow :: rat where
  "overflow = 2 ^ 1024"

text \<open>The double an exact result is rounded to.\<close>

definition fl :: "rat \<Rightarrow> number" where
  "fl q = (if overflow \<le> \<bar>nearest q\<bar> then (if 0 < q then Infinity else NegInfinity)
           else Num (nearest q))"

text \<open>\<^verbatim>\<open>a > b\<close> on numbers: exact, and false as soon as one side is \<^verbatim>\<open>NaN\<close>.\<close>

fun js_gt :: "number \<Rightarrow> number \<Rightarrow> bool" where
  "js_gt NaN b = False"
| "js_gt a NaN = False"
| "js_gt (Num a) (Num b) = (a > b)"
| "js_gt (Num a) Infinity = False"
| "js_gt (Num a) NegInfinity = True"
| "js_gt Infinity Infinity = False"
| "js_gt Infinity b = True"
| "js_gt NegInfinity b = False"

text \<open>\<^verbatim>\<open>a + b\<close> on numbers: the exact sum, rounded.\<close>

fun js_add :: "number \<Rightarrow> number \<Rightarrow> number" where
  "js_add NaN b = NaN"
| "js_add a NaN = NaN"
| "js_add (Num a) (Num b) = fl (a + b)"
| "js_add Infinity NegInfinity = NaN"
| "js_add NegInfinity Infinity = NaN"
| "js_add Infinity b = Infinity"
| "js_add a Infinity = Infinity"
| "js_add NegInfinity b = NegInfinity"
| "js_add a NegInfinity = NegInfinity"

text \<open>
  Truthiness of an optional number, as tested by \<^verbatim>\<open>ttl ? ... : ...\<close> and
  \<^verbatim>\<open>maxCacheSize && ...\<close>: \<^verbatim>\<open>undefined\<close>, \<^verbatim>\<open>0\<close> and \<^verbatim>\<open>NaN\<close> are falsy.
\<close>

fun truthy :: "number option \<Rightarrow> bool" where
  "truthy None = False"
| "truthy (Some (Num n)) = (n \<noteq> 0)"
| "truthy (Some NaN) = False"
| "truthy (Some Infinity) = True"
| "truthy (Some NegInfinity) = True"

text \<open>
  \<^verbatim>\<open>Date.now()\<close> returns a time value: a whole number of milliseconds of magnitude at
  most \<open>8.64 \<times> 10\<^sup>1\<^sup>5\<close>, which is below \<open>2\<^sup>5\<^sup>3\<close> and hence a double. The embedding
  passes a clock reading as an integer \<open>now\<close> and uses it as \<open>Num (of_int now)\<close>.
\<close>

definition timeValue :: "int \<Rightarrow> bool" where
  "timeValue t = (\<bar>t\<bar> \<le> 8640000000000000)"

subsection \<open>Objects\<close>

record MemorizeOptions =
  ttl :: "number option"
  maxCacheSize :: "number option"

record 'r MemorizedResult =
  value' :: "'r js"
  expiration :: number

text \<open>
  An object used as \<^verbatim>\<open>memory\<close>: its own properties, each holding an entry, and its
  prototype. The prototype is \<^verbatim>\<open>Object.prototype\<close> (\<open>None\<close>) unless an assignment to
  the key \<^verbatim>\<open>__proto__\<close> has replaced it by an entry object (\<open>Some\<close>); an entry object
  has the own properties \<^verbatim>\<open>value\<close> and \<^verbatim>\<open>expiration\<close> and the prototype
  \<^verbatim>\<open>Object.prototype\<close>. Objects with another prototype are outside the embedding. The
  wrapper never writes to an entry object, so entries are kept by value.
\<close>

record 'r jsobject =
  own :: "string \<rightharpoonup> 'r MemorizedResult"
  proto :: "'r MemorizedResult option"

text \<open>
  What \<^verbatim>\<open>memory[key]\<close> evaluates to: an entry; a result value of the wrapped function
  (the \<^verbatim>\<open>value\<close> of an entry that is the prototype); or something that is not an entry
  and has no \<^verbatim>\<open>expiration\<close>: \<^verbatim>\<open>undefined\<close>, \<^verbatim>\<open>Object.prototype\<close> itself, one of its
  methods, or the number \<^verbatim>\<open>expiration\<close> of an entry that is the prototype.
\<close>

datatype 'r property = NotAnEntry | Entry "'r MemorizedResult" | Foreign "'r js"

definition getProperty :: "'r jsobject \<Rightarrow> string \<Rightarrow> 'r property" where
  "getProperty obj key =
     (case own obj key of
        Some c \<Rightarrow> Entry c
      | None \<Rightarrow>
          (case proto obj of
             None \<Rightarrow> NotAnEntry
           | Some e \<Rightarrow>
               if key = ''__proto__'' then Entry e
               else if key = ''value'' then Foreign (value' e)
               else NotAnEntry))"

text \<open>
  \<^verbatim>\<open>memory[key] = entry\<close>. Without an own property of that name, the key
  \<^verbatim>\<open>__proto__\<close> reaches the setter of \<^verbatim>\<open>Object.prototype\<close>, which makes the entry the
  prototype and creates no property.
\<close>

definition setProperty :: "'r jsobject \<Rightarrow> string \<Rightarrow> 'r MemorizedResult \<Rightarrow> 'r jsobject" where
  "setProperty obj key entry =
     (if key = ''__proto__'' \<and> own obj key = None then obj\<lparr>proto := Some entry\<rparr>
      else obj\<lparr>own := (own obj)(key \<mapsto> entry)\<rparr>)"

text \<open>\<^verbatim>\<open>delete memory[key]\<close> removes an own property and nothing else.\<close>

definition deleteProperty :: "'r jsobject \<Rightarrow> string \<Rightarrow> 'r jsobject" where
  "deleteProperty obj key = obj\<lparr>own := (own obj)(key := None)\<rparr>"

text \<open>
  The heap: the objects by reference, and the next unused reference. \<^verbatim>\<open>{}\<close> allocates.
\<close>

record 'r heap =
  objects :: "nat \<Rightarrow> 'r jsobject"
  nextRef :: nat

definition emptyObject :: "'r jsobject" where
  "emptyObject = \<lparr>own = Map.empty, proto = None\<rparr>"

definition newObject :: "'r heap \<Rightarrow> 'r heap \<times> nat" where
  "newObject h =
     (h\<lparr>objects := (objects h)(nextRef h := emptyObject), nextRef := Suc (nextRef h)\<rparr>,
      nextRef h)"

text \<open>
  The state of one wrapper. \<open>memory\<close> (a reference into the heap) and \<open>cacheOrder\<close>
  are the two closure variables. \<open>fnCalls\<close> is not a variable of the source: it lists
  the argument lists the wrapped function has been invoked with, oldest first, which is
  what the mock of the test suite records (\<^verbatim>\<open>toHaveBeenCalledTimes\<close>).
\<close>

record 'a wrapper =
  memory :: nat
  cacheOrder :: "string list"
  fnCalls :: "'a list"

text \<open>
  How a promise settles. The wrapped function is a function from its argument list to the
  settlement of the promise it returns; \<^verbatim>\<open>await fn(...args)\<close> either yields the value or
  rethrows the rejection.
\<close>

datatype ('e, 'r) settled = Fulfilled "'r js" | Rejected 'e

subsection \<open>Operations\<close>

text \<open>\<^verbatim>\<open>withMemorized\<close>, lines 89-90: a new empty object, an empty array.\<close>

definition withMemorized :: "'r heap \<Rightarrow> 'r heap \<times> 'a wrapper" where
  "withMemorized h =
     (case newObject h of (h', r) \<Rightarrow> (h', \<lparr>memory = r, cacheOrder = [], fnCalls = []\<rparr>))"

text \<open>
  \<^verbatim>\<open>getCachedResult\<close>, lines 98-106; \<open>now\<close> is the value of \<^verbatim>\<open>Date.now()\<close> at line 102.
  An entry is an object, hence truthy. When \<^verbatim>\<open>memory[key]\<close> is a result value \<open>x\<close> of
  the wrapped function, what lines 102-105 yield depends on the properties of \<open>x\<close>, which
  the embedding does not know: it is the parameter \<open>resultAsCached x now\<close>.
\<close>

definition getCachedResult ::
  "('r \<Rightarrow> int \<Rightarrow> 'r js) \<Rightarrow> int \<Rightarrow> string \<Rightarrow> 'r heap \<Rightarrow> 'a wrapper \<Rightarrow> 'r js" where
  "getCachedResult resultAsCached now key h w =
     (case getProperty (objects h (memory w)) key of
        NotAnEntry \<Rightarrow> Undefined
      | Entry cachedResult \<Rightarrow>
          if js_gt (expiration cachedResult) (Num (of_int now)) then value' cachedResult
          else Undefined
      | Foreign Undefined \<Rightarrow> Undefined
      | Foreign (Val x) \<Rightarrow> resultAsCached x now)"

text \<open>Lines 115-118 of \<^verbatim>\<open>storeInCache\<close>: the assignment \<^verbatim>\<open>memory[key] = {...}\<close>.\<close>

definition writeEntry ::
  "MemorizeOptions \<Rightarrow> int \<Rightarrow> string \<Rightarrow> 'r js \<Rightarrow> 'r heap \<Rightarrow> 'a wrapper \<Rightarrow> 'r heap" where
  "writeEntry opts now key result h w =
     h\<lparr>objects := (objects h)(memory w :=
          setProperty (objects h (memory w)) key
            \<lparr>value' = result,
             expiration = (if truthy (ttl opts) then js_add (Num (of_int now)) (the (ttl opts))
                           else Infinity)\<rparr>)\<rparr>"

text \<open>Line 120: \<^verbatim>\<open>cacheOrder.push(key)\<close>.\<close>

definition pushKey :: "string \<Rightarrow> 'a wrapper \<Rightarrow> 'a wrapper" where
  "pushKey key w = w\<lparr>cacheOrder := cacheOrder w @ [key]\<rparr>"

text \<open>
  Lines 122-123: \<^verbatim>\<open>cacheOrder.shift()\<close> and \<^verbatim>\<open>delete memory[keyToRemove]\<close>. On an empty
  array \<^verbatim>\<open>shift\<close> returns \<^verbatim>\<open>undefined\<close>, which as a property name is the string
  \<^verbatim>\<open>"undefined"\<close>; the array is never empty here, since line 120 has just pushed.
\<close>

definition evictOldest :: "'r heap \<Rightarrow> 'a wrapper \<Rightarrow> 'r heap \<times> 'a wrapper" where
  "evictOldest h w =
     (case cacheOrder w of
        [] \<Rightarrow>
          (h\<lparr>objects := (objects h)(memory w :=
                deleteProperty (objects h (memory w)) ''undefined'')\<rparr>, w)
      | keyToRemove # rest \<Rightarrow>
          (h\<lparr>objects := (objects h)(memory w :=
                deleteProperty (objects h (memory w)) keyToRemove)\<rparr>,
           w\<lparr>cacheOrder := rest\<rparr>))"

text \<open>
  \<^verbatim>\<open>storeInCache\<close>, lines 114-125; \<open>now\<close> is the value of \<^verbatim>\<open>Date.now()\<close> at
  line 117.
\<close>

definition storeInCache ::
  "MemorizeOptions \<Rightarrow> int \<Rightarrow> string \<Rightarrow> 'r js \<Rightarrow> 'r heap \<Rightarrow> 'a wrapper
     \<Rightarrow> 'r heap \<times> 'a wrapper" where
  "storeInCache opts now key result h w =
     (let h' = writeEntry opts now key result h w;
          w' = pushKey key w
      in if truthy (maxCacheSize opts)
            \<and> js_gt (Num (of_nat (length (cacheOrder w')))) (the (maxCacheSize opts))
         then evictOldest h' w'
         else (h', w'))"

text \<open>
  \<^verbatim>\<open>memorizedFunction\<close>, lines 134-147. \<open>now\<close> is the clock when the lookup runs and
  \<open>later\<close> the clock when the awaited call has completed and the result is stored. The
  first component of the result is how the returned promise settles.
\<close>

definition memorizedFunction ::
  "MemorizeOptions \<Rightarrow> ('r \<Rightarrow> int \<Rightarrow> 'r js) \<Rightarrow> ('a \<Rightarrow> ('e, 'r) settled) \<Rightarrow> int \<Rightarrow> int
     \<Rightarrow> string \<Rightarrow> 'a \<Rightarrow> 'r heap \<Rightarrow> 'a wrapper
     \<Rightarrow> ('e, 'r) settled \<times> 'r heap \<times> 'a wrapper" where
  "memorizedFunction opts resultAsCached fn now later key args h w =
     (let cachedValue = getCachedResult resultAsCached now key h w
      in if cachedValue \<noteq> Undefined then (Fulfilled cachedValue, h, w)
         else
           (let called = w\<lparr>fnCalls := fnCalls w @ [args]\<rparr>
            in case fn args of
                 Rejected e \<Rightarrow> (Rejected e, h, called)
               | Fulfilled result \<Rightarrow>
                   (Fulfilled result, storeInCache opts later key result h called)))"

text \<open>
  \<^verbatim>\<open>importMemory\<close>, lines 154-158: the variable is made to refer to the object given;
  nothing is copied.
\<close>

definition importMemory :: "nat \<Rightarrow> 'a wrapper \<Rightarrow> 'a wrapper" where
  "importMemory memoryToImport w = w\<lparr>memory := memoryToImport\<rparr>"

text \<open>\<^verbatim>\<open>exportMemory\<close>, line 165: the object the variable refers to, not a copy.\<close>

definition exportMemory :: "'a wrapper \<Rightarrow> nat" where
  "exportMemory w = memory w"

text \<open>\<^verbatim>\<open>clearMemory\<close>, lines 170-173: a new empty object, a new empty array.\<close>

definition clearMemory :: "'r heap \<Rightarrow> 'a wrapper \<Rightarrow> 'r heap \<times> 'a wrapper" where
  "clearMemory h w =
     (case newObject h of (h', r) \<Rightarrow> (h', w\<lparr>memory := r, cacheOrder := []\<rparr>))"

subsection \<open>Runs\<close>

text \<open>
  One call of the public interface of a wrapper: \<open>Invoke key args now later\<close> is
  \<^verbatim>\<open>await memorizedFunction(key, ...args)\<close> with the two clock readings.
\<close>

datatype 'a operation =
    Invoke string 'a int int
  | ImportMemory nat
  | ExportMemory
  | ClearMemory

fun step ::
  "MemorizeOptions \<Rightarrow> ('r \<Rightarrow> int \<Rightarrow> 'r js) \<Rightarrow> ('a \<Rightarrow> ('e, 'r) settled)
     \<Rightarrow> 'r heap \<times> 'a wrapper \<Rightarrow> 'a operation \<Rightarrow> 'r heap \<times> 'a wrapper" where
  "step opts resultAsCached fn (h, w) (Invoke key args now later) =
     snd (memorizedFunction opts resultAsCached fn now later key args h w)"
| "step opts resultAsCached fn (h, w) (ImportMemory m) = (h, importMemory m w)"
| "step opts resultAsCached fn (h, w) ExportMemory = (h, w)"
| "step opts resultAsCached fn (h, w) ClearMemory = clearMemory h w"

definition run ::
  "MemorizeOptions \<Rightarrow> ('r \<Rightarrow> int \<Rightarrow> 'r js) \<Rightarrow> ('a \<Rightarrow> ('e, 'r) settled)
     \<Rightarrow> 'a operation list \<Rightarrow> 'r heap \<times> 'a wrapper \<Rightarrow> 'r heap \<times> 'a wrapper" where
  "run opts resultAsCached fn ops s = foldl (step opts resultAsCached fn) s ops"


subsection \<open>Invariant\<close>

text \<open>
  \<open>bounded N h w\<close>: every own key of the cache object is recorded in the order log,
  and the log holds at most \<open>N\<close> keys.
\<close>

definition bounded :: "rat \<Rightarrow> 'r heap \<Rightarrow> 'a wrapper \<Rightarrow> bool" where
  "bounded N h w =
     (dom (own (objects h (memory w))) \<subseteq> set (cacheOrder w)
      \<and> of_nat (length (cacheOrder w)) \<le> N)"

subsection \<open>Values used in the examples\<close>

text \<open>
  \<^verbatim>\<open>async (num: number) => num * 2\<close>, the function wrapped throughout the test suite;
  a function resolving to \<^verbatim>\<open>undefined\<close>; and a function whose promise rejects. A result
  that is a number has no property \<^verbatim>\<open>expiration\<close>, so lines 102-105 yield
  \<^verbatim>\<open>undefined\<close> for it. The heap without any wrapper.
\<close>

definition mockFn :: "int \<Rightarrow> (string, int) settled" where
  "mockFn num = Fulfilled (Val (num * 2))"

definition returnsUndefined :: "int \<Rightarrow> (string, int) settled" where
  "returnsUndefined num = Fulfilled Undefined"

definition alwaysRejects :: "int \<Rightarrow> (string, int) settled" where
  "alwaysRejects num = Rejected ''boom''"

definition numberAsCached :: "int \<Rightarrow> int \<Rightarrow> int js" where
  "numberAsCached x now = Undefined"

definition emptyHeap :: "int heap" where
  "emptyHeap = \<lparr>objects = (\<lambda>r. emptyObject), nextRef = 0\<rparr>"

section \<open>Properties\<close>

subsection \<open>Rounding\<close>

lemma round_even_of_int [simp]: "round_even (of_int n) = n"
  by (simp add: round_even_def)

lemma round_even_ge_floor: "\<lfloor>x\<rfloor> \<le> round_even x"
  by (simp add: round_even_def Let_def)

lemma ilog2_of_int:
  assumes "0 < m"
  shows "ilog2 (of_int m) = bitlen m - 1"
proof -
  have "(2::int) ^ nat (bitlen m - 1) \<le> m" using bitlen_bounds [OF assms] by simp
  moreover have "0 \<le> bitlen m - 1"
    using assms bitlen_eq_zero_iff [of m] bitlen_nonneg [of m] by linarith
  ultimately have "(2::rat) powi (bitlen m - 1) \<le> of_int m"
    by (metis of_int_le_iff of_int_numeral of_int_power power_int_def)
  moreover have "bitlen 1 = 1" by (simp add: bitlen_alt_def)
  ultimately show ?thesis
    by (simp add: ilog2_def)
qed

lemma nearest_of_int:
  assumes "\<bar>n\<bar> < 2 ^ 53"
  shows "nearest (of_int n) = of_int n"
proof (cases "n = 0")
  case True
  then show ?thesis by (simp add: nearest_def round_even_def)
next
  case False
  then have pos: "0 < \<bar>n\<bar>" by simp
  have "bitlen \<bar>n\<bar> \<le> 53"
    using assms by (simp add: bitlen_le_iff_power)
  then have "ilog2 \<bar>of_int n\<bar> \<le> 52"
    using ilog2_of_int [OF pos] by (simp flip: of_int_abs)
  then have "max (ilog2 \<bar>of_int n\<bar>) (- 1022) - 52 \<le> 0" by simp
  then obtain k where k: "max (ilog2 \<bar>of_int n\<bar>) (- 1022) - 52 = - int k"
    by (metis add.inverse_inverse neg_le_0_iff_le zero_le_imp_eq_int)
  have u: "(2::rat) powi (- int k) = 1 / 2 ^ k"
    by (simp add: power_int_def inverse_eq_divide power_one_over)
  have "of_int n / ((1::rat) / 2 ^ k) = of_int (n * 2 ^ k)" by simp
  then have "of_int (round_even (of_int n / ((1::rat) / 2 ^ k))) * ((1::rat) / 2 ^ k)
      = of_int n"
    by (simp only: round_even_of_int) simp
  then show ?thesis
    by (simp only: nearest_def Let_def k u)
qed

lemma overflow_gt: "2 ^ 53 < overflow"
  unfolding overflow_def by (rule power_strict_increasing) simp_all

lemma fl_of_int:
  assumes "\<bar>n\<bar> < 2 ^ 53"
  shows "fl (of_int n) = Num (of_int n)"
proof -
  have "\<bar>of_int n :: rat\<bar> < 2 ^ 53" using assms
    by (metis of_int_abs of_int_less_iff of_int_numeral of_int_power)
  then have "\<not> overflow \<le> \<bar>of_int n\<bar>" using overflow_gt by linarith
  then show ?thesis
    by (simp only: fl_def nearest_of_int [OF assms] if_False)
qed

lemma nearest_of_int_large:
  assumes "2 ^ 53 \<le> x"
  shows "2 ^ 53 \<le> nearest (of_int x)"
proof -
  have pos: "0 < x" using assms by (smt (verit) zero_less_power)
  define e where "e = bitlen x - 1"
  have e: "ilog2 \<bar>of_int x\<bar> = e" using ilog2_of_int [OF pos] pos by (simp add: e_def)
  have "\<not> bitlen x \<le> 53" using assms by (simp add: bitlen_le_iff_power)
  then have e53: "53 \<le> e" by (simp add: e_def)
  have lower: "(2::rat) powi e \<le> of_int x"
  proof -
    have "(2::int) ^ nat e \<le> x" using bitlen_bounds [OF pos] by (simp add: e_def)
    then have "(2::rat) ^ nat e \<le> of_int x"
      by (metis of_int_le_iff of_int_numeral of_int_power)
    then show ?thesis using e53 by (simp add: power_int_def)
  qed
  define u :: rat where "u = 2 powi (e - 52)"
  have upos: "0 < u" by (simp add: u_def zero_less_power_int)
  have ue: "2 ^ 52 * u = 2 powi e"
  proof -
    have "(2::rat) powi e = 2 powi (52 + (e - 52))" by simp
    also have "\<dots> = 2 powi 52 * 2 powi (e - 52)" by (subst power_int_add) simp_all
    finally show ?thesis by (simp add: u_def)
  qed
  have "2 ^ 52 \<le> of_int x / u"
    using lower upos ue by (simp add: pos_le_divide_eq)
  then have "2 ^ 52 \<le> \<lfloor>of_int x / u\<rfloor>"
    by (metis le_floor_iff of_int_numeral of_int_power)
  then have "2 ^ 52 \<le> round_even (of_int x / u)"
    using round_even_ge_floor [of "of_int x / u"] by linarith
  then have "(2::rat) ^ 52 \<le> of_int (round_even (of_int x / u))"
    by (metis of_int_le_iff of_int_numeral of_int_power)
  then have "2 ^ 52 * u \<le> of_int (round_even (of_int x / u)) * u"
    using upos by simp
  moreover have "(2::rat) ^ 53 \<le> 2 powi e"
  proof -
    have "(2::rat) ^ 53 \<le> 2 ^ nat e" using e53 by (intro power_increasing) simp_all
    then show ?thesis using e53 by (simp add: power_int_def)
  qed
  ultimately have big: "2 ^ 53 \<le> of_int (round_even (of_int x / u)) * u"
    using ue by linarith
  have m: "max e (- 1022) - 52 = e - 52" using e53 by simp
  show ?thesis
    using big by (simp only: nearest_def Let_def e m flip: u_def)
qed

text \<open>
  A clock reading plus a whole number of milliseconds: exact below \<open>2\<^sup>5\<^sup>3\<close>, and never
  rounded below a clock reading that the exact sum exceeds.
\<close>

lemma js_add_of_int:
  assumes "\<bar>a + b\<bar> < 2 ^ 53"
  shows "js_add (Num (of_int a)) (Num (of_int b)) = Num (of_int (a + b))"
  using fl_of_int [OF assms] by simp

lemma js_gt_clock_plus_ttl:
  assumes "now < later + t" and "timeValue now"
  shows "js_gt (js_add (Num (of_int later)) (Num (of_int t))) (Num (of_int now))"
proof (cases "later + t < 2 ^ 53")
  case True
  have "- (2 ^ 53) < now" using assms(2) by (simp add: timeValue_def)
  then have "\<bar>later + t\<bar> < 2 ^ 53" using True assms(1) by linarith
  then have "fl (of_int later + of_int t) = Num (of_int (later + t))"
    using fl_of_int [of "later + t"] by simp
  then show ?thesis using assms(1) by (simp del: of_int_add)
next
  case False
  then have big: "2 ^ 53 \<le> later + t" by simp
  have small: "(of_int now :: rat) < 2 ^ 53"
  proof -
    have "now < 2 ^ 53" using assms(2) by (simp add: timeValue_def)
    then show ?thesis by (metis of_int_less_iff of_int_numeral of_int_power)
  qed
  have "0 < later + t" using big by (smt (verit) zero_less_power)
  then have pos: "(0::rat) < of_int later + of_int t"
    by (metis of_int_0_less_iff of_int_add)
  have "2 ^ 53 \<le> nearest (of_int later + of_int t)"
    using nearest_of_int_large [OF big] by simp
  then show ?thesis using small pos by (simp add: fl_def)
qed

lemma fl_numeral:
  assumes "(numeral k :: int) < 2 ^ 53"
  shows "fl (numeral k) = Num (numeral k)"
  using fl_of_int [of "numeral k"] assms by simp

lemma fl_zero: "fl 0 = Num 0"
  using fl_of_int [of 0] by simp

lemma fl_one: "fl 1 = Num 1"
  using fl_of_int [of 1] by simp

subsection \<open>Properties of objects\<close>

lemma getProperty_own:
  "own obj key = Some c \<Longrightarrow> getProperty obj key = Entry c"
  by (simp add: getProperty_def)

lemma getProperty_setProperty: "getProperty (setProperty obj key e) key = Entry e"
  by (auto simp add: getProperty_def setProperty_def split: option.splits)

lemma getProperty_deleteProperty:
  "k \<noteq> key \<Longrightarrow> getProperty (deleteProperty obj k) key = getProperty obj key"
  by (auto simp add: getProperty_def deleteProperty_def split: option.splits)

subsection \<open>Hits, misses and stores\<close>

lemma memorizedFunction_hit:
  assumes "getProperty (objects h (memory w)) key = Entry c"
    and "js_gt (expiration c) (Num (of_int now))" and "value' c \<noteq> Undefined"
  shows "memorizedFunction opts rd fn now later key args h w = (Fulfilled (value' c), h, w)"
  using assms by (simp add: memorizedFunction_def getCachedResult_def)

lemma memorizedFunction_miss:
  assumes "getCachedResult rd now key h w = Undefined"
  shows "memorizedFunction opts rd fn now later key args h w =
           (case fn args of
              Rejected e \<Rightarrow> (Rejected e, h, w\<lparr>fnCalls := fnCalls w @ [args]\<rparr>)
            | Fulfilled r \<Rightarrow>
                (Fulfilled r,
                 storeInCache opts later key r h (w\<lparr>fnCalls := fnCalls w @ [args]\<rparr>)))"
  using assms by (simp add: memorizedFunction_def Let_def split: settled.splits)

lemma storeInCache_wrapper:
  "memory (snd (storeInCache opts now key r h w)) = memory w
   \<and> fnCalls (snd (storeInCache opts now key r h w)) = fnCalls w"
  by (simp add: storeInCache_def pushKey_def evictOldest_def Let_def split: list.splits)

lemma storeInCache_no_eviction:
  assumes "\<not> (truthy (maxCacheSize opts)
              \<and> js_gt (Num (of_nat (length (cacheOrder w) + 1))) (the (maxCacheSize opts)))"
  shows "storeInCache opts now key r h w = (writeEntry opts now key r h w, pushKey key w)"
  using assms by (auto simp add: storeInCache_def pushKey_def Let_def)

lemma storeInCache_eviction:
  assumes "truthy (maxCacheSize opts)"
    and "js_gt (Num (of_nat (length (cacheOrder w) + 1))) (the (maxCacheSize opts))"
  shows "storeInCache opts now key r h w
           = evictOldest (writeEntry opts now key r h w) (pushKey key w)"
  using assms by (simp add: storeInCache_def pushKey_def Let_def)

text \<open>
  A store keeps the entry it writes unless it shifts its own key from the log: that
  needs a bound that the log exceeds after the push, and the key at the front.
\<close>

lemma storeInCache_keeps:
  assumes "maxCacheSize opts = None
           \<or> (maxCacheSize opts = Some (Num N) \<and> 1 \<le> N
               \<and> (cacheOrder w = [] \<or> hd (cacheOrder w) \<noteq> key
                   \<or> of_nat (length (cacheOrder w)) + 1 \<le> N))"
  shows "getProperty (objects (fst (storeInCache opts now key r h w)) (memory w)) key
           = Entry \<lparr>value' = r,
                    expiration = (if truthy (ttl opts)
                                  then js_add (Num (of_int now)) (the (ttl opts))
                                  else Infinity)\<rparr>"
proof (cases "truthy (maxCacheSize opts)
              \<and> js_gt (Num (of_nat (length (cacheOrder w) + 1))) (the (maxCacheSize opts))")
  case False
  then show ?thesis
    by (simp add: storeInCache_no_eviction writeEntry_def getProperty_setProperty)
next
  case True
  with assms obtain k ks where log: "cacheOrder w = k # ks" "k \<noteq> key"
    by (cases "cacheOrder w") auto
  from True have "storeInCache opts now key r h w
      = evictOldest (writeEntry opts now key r h w) (pushKey key w)"
    by (simp add: storeInCache_eviction)
  then show ?thesis
    using log
    by (simp add: evictOldest_def pushKey_def writeEntry_def getProperty_deleteProperty
        getProperty_setProperty)
qed

lemmas example_defs = memorizedFunction_def getCachedResult_def getProperty_def
  setProperty_def deleteProperty_def writeEntry_def pushKey_def evictOldest_def
  storeInCache_def withMemorized_def newObject_def emptyObject_def emptyHeap_def
  importMemory_def exportMemory_def clearMemory_def run_def timeValue_def
  mockFn_def returnsUndefined_def alwaysRejects_def numberAsCached_def
  fl_numeral fl_zero fl_one

subsection \<open>Hits within the time-to-live\<close>

text \<open>
  C1 (amended). Let \<open>ttl\<close> be a whole number \<open>t \<ge> 1\<close> of milliseconds. Let a first
  \<open>Invoke\<close> of \<open>key\<close> miss and the wrapped function resolve to a value \<open>v\<close> other
  than \<^verbatim>\<open>undefined\<close>, and let the store of that call not shift \<open>key\<close> itself from the
  order log: no \<open>maxCacheSize\<close> is configured, or \<open>maxCacheSize = N \<ge> 1\<close> and the log
  is empty, or its first key is not \<open>key\<close>, or it holds fewer than \<open>N\<close> keys. Then a
  second \<open>Invoke\<close> of \<open>key\<close> whose lookup runs at a clock reading \<open>now2 < later1 + t\<close>
  (a time value, as \<^verbatim>\<open>Date.now()\<close> returns), where \<open>later1\<close> is the clock at the first
  call's store, returns the same value and leaves heap and wrapper as they were: over the
  two calls the wrapped function has been invoked exactly once.
\<close>

theorem second_call_within_ttl:
  assumes "ttl opts = Some (Num (of_int t))" and "1 \<le> t"
    and "maxCacheSize opts = None
         \<or> (maxCacheSize opts = Some (Num N) \<and> 1 \<le> N
             \<and> (cacheOrder w = [] \<or> hd (cacheOrder w) \<noteq> key
                 \<or> of_nat (length (cacheOrder w)) + 1 \<le> N))"
    and "getCachedResult rd now1 key h w = Undefined"
    and "fn args1 = Fulfilled (Val v)"
    and "memorizedFunction opts rd fn now1 later1 key args1 h w = (r1, h1, w1)"
    and "now2 < later1 + t" and "timeValue now2"
    and "memorizedFunction opts rd fn now2 later2 key args2 h1 w1 = (r2, h2, w2)"
  shows "r1 = Fulfilled (Val v) \<and> r2 = Fulfilled (Val v) \<and> h2 = h1 \<and> w2 = w1
       \<and> fnCalls w2 = fnCalls w @ [args1]"
proof -
  let ?called = "w\<lparr>fnCalls := fnCalls w @ [args1]\<rparr>"
  let ?s = "storeInCache opts later1 key (Val v) h ?called"
  let ?e = "\<lparr>value' = Val v,
            expiration = js_add (Num (of_int later1)) (Num (of_int t))\<rparr>"
  have "(r1, h1, w1) = (Fulfilled (Val v), ?s)"
    using assms(4,5,6) by (simp add: memorizedFunction_miss)
  then have first: "r1 = Fulfilled (Val v)" and s: "?s = (h1, w1)"
    by simp_all
  have w1: "memory w1 = memory w" "fnCalls w1 = fnCalls w @ [args1]"
    using storeInCache_wrapper [of opts later1 key "Val v" h ?called]
    by (simp_all add: s)
  have "truthy (ttl opts)" using assms(1,2) by simp
  moreover have "maxCacheSize opts = None
         \<or> (maxCacheSize opts = Some (Num N) \<and> 1 \<le> N
             \<and> (cacheOrder ?called = [] \<or> hd (cacheOrder ?called) \<noteq> key
                 \<or> of_nat (length (cacheOrder ?called)) + 1 \<le> N))"
    using assms(3) by simp
  ultimately have "getProperty (objects h1 (memory w1)) key = Entry ?e"
    using storeInCache_keeps [of opts N ?called key later1 "Val v" h] assms(1)
    by (simp add: s w1(1))
  moreover have "js_gt (expiration ?e) (Num (of_int now2))"
    using js_gt_clock_plus_ttl [OF assms(7,8)] by simp
  ultimately have "memorizedFunction opts rd fn now2 later2 key args2 h1 w1
      = (Fulfilled (value' ?e), h1, w1)"
    by (rule memorizedFunction_hit) simp
  with assms(9) first w1(2) show ?thesis by simp
qed

text \<open>
  The test "should return the cached result if within TTL", with the second call 999 ms
  after the first.
\<close>

theorem second_call_within_ttl_witness:
  "memorizedFunction \<lparr>ttl = Some (Num 1000), maxCacheSize = Some (Num 2)\<rparr> numberAsCached
       mockFn 999 999 ''key1'' 2
       (fst (run \<lparr>ttl = Some (Num 1000), maxCacheSize = Some (Num 2)\<rparr> numberAsCached mockFn
          [Invoke ''key1'' 2 0 0] (withMemorized emptyHeap)))
       (snd (run \<lparr>ttl = Some (Num 1000), maxCacheSize = Some (Num 2)\<rparr> numberAsCached mockFn
          [Invoke ''key1'' 2 0 0] (withMemorized emptyHeap)))
     = (Fulfilled (Val 4),
        run \<lparr>ttl = Some (Num 1000), maxCacheSize = Some (Num 2)\<rparr> numberAsCached mockFn
          [Invoke ''key1'' 2 0 0] (withMemorized emptyHeap))
   \<and> fnCalls (snd (run \<lparr>ttl = Some (Num 1000), maxCacheSize = Some (Num 2)\<rparr> numberAsCached
          mockFn [Invoke ''key1'' 2 0 0] (withMemorized emptyHeap))) = [2]"
proof -
  let ?opts = "\<lparr>ttl = Some (Num 1000), maxCacheSize = Some (Num 2)\<rparr>"
  let ?h0 = "fst (withMemorized emptyHeap :: int heap \<times> int wrapper)"
  let ?w0 = "snd (withMemorized emptyHeap :: int heap \<times> int wrapper)"
  let ?s1 = "run ?opts numberAsCached mockFn [Invoke ''key1'' 2 0 0] (withMemorized emptyHeap)"
  have s1: "memorizedFunction ?opts numberAsCached mockFn 0 0 ''key1'' 2 ?h0 ?w0
      = (Fulfilled (Val 4), fst ?s1, snd ?s1)"
    by (simp add: example_defs)
  obtain r2 h2 w2 where second: "memorizedFunction ?opts numberAsCached mockFn 999 999
      ''key1'' 2 (fst ?s1) (snd ?s1) = (r2, h2, w2)"
    using prod_cases3 by blast
  have res: "r2 = Fulfilled (Val 4) \<and> h2 = fst ?s1 \<and> w2 = snd ?s1
      \<and> fnCalls w2 = fnCalls ?w0 @ [2]"
    using second_call_within_ttl [where opts = ?opts and t = 1000 and N = 2 and w = ?w0
        and key = "''key1''" and rd = numberAsCached and ?now1.0 = 0 and h = ?h0
        and fn = mockFn and ?args1.0 = 2 and v = 4 and ?later1.0 = 0
        and ?r1.0 = "Fulfilled (Val 4)" and ?h1.0 = "fst ?s1" and ?w1.0 = "snd ?s1"
        and ?now2.0 = 999 and ?later2.0 = 999 and ?args2.0 = 2 and ?r2.0 = r2
        and ?h2.0 = h2 and ?w2.0 = w2] s1 second
    by (auto simp add: getCachedResult_def getProperty_def withMemorized_def newObject_def
        emptyObject_def emptyHeap_def timeValue_def mockFn_def)
  then have "fnCalls (snd ?s1) = fnCalls ?w0 @ [2]" by metis
  then have "fnCalls (snd ?s1) = [2]" by (simp add: withMemorized_def newObject_def)
  moreover have "memorizedFunction ?opts numberAsCached mockFn 999 999
      ''key1'' 2 (fst ?s1) (snd ?s1) = (Fulfilled (Val 4), ?s1)"
    using second res by simp
  ultimately show ?thesis by (rule_tac conjI)
qed

text \<open>
  C1 as stated fails for a wrapped function resolving to \<^verbatim>\<open>undefined\<close>: with
  \<open>ttl = 1000\<close>, a second call one millisecond after the first store invokes the
  function a second time.
\<close>

theorem undefined_result_counterexample:
  "(1::int) < 0 + 1000
   \<and> fnCalls (snd (run \<lparr>ttl = Some (Num 1000), maxCacheSize = None\<rparr> numberAsCached
        returnsUndefined [Invoke ''key1'' 2 0 0, Invoke ''key1'' 2 1 1]
        (withMemorized emptyHeap))) = [2, 2]"
  by (simp add: example_defs)

text \<open>
  A time-to-live that is not a whole number can be lost in the sum: the double nearest to
  \<open>0.0001\<close>, added to the clock reading \<open>1793578330839\<close>, gives that clock reading
  back, and a second call within the same millisecond invokes the function again.
\<close>

lemma fractional_ttl_is_rounded_away:
  "fl (1 / 10000) = Num (7378697629483821 / 73786976294838206464)
   \<and> js_add (Num (of_int 1793578330839)) (Num (7378697629483821 / 73786976294838206464))
       = Num 1793578330839"
  by code_simp

lemma fractional_ttl_second_call_misses:
  "fnCalls (snd (run \<lparr>ttl = Some (Num (7378697629483821 / 73786976294838206464)),
                     maxCacheSize = None\<rparr> numberAsCached mockFn
        [Invoke ''key1'' 2 1793578330839 1793578330839,
         Invoke ''key1'' 2 1793578330839 1793578330839]
        (withMemorized emptyHeap))) = [2, 2]"
proof -
  have "js_add (Num 1793578330839) (Num (7378697629483821 / 73786976294838206464))
       = Num 1793578330839"
    using fractional_ttl_is_rounded_away by simp
  then show ?thesis
    by (simp add: memorizedFunction_def getCachedResult_def getProperty_def
        setProperty_def writeEntry_def pushKey_def storeInCache_def withMemorized_def
        newObject_def emptyObject_def emptyHeap_def run_def mockFn_def
        del: js_add.simps)
qed

subsection \<open>Failure of the wrapped function\<close>

text \<open>
  C3. When the lookup misses, so that the wrapped function is invoked, and its promise
  rejects with \<open>e\<close>, the promise returned by \<open>Invoke\<close> rejects with the same \<open>e\<close>,
  and the heap (hence the cache object and every entry in it), the reference \<open>memory\<close>
  and the order log are what they were before the call; the function has been invoked
  once.
\<close>

theorem fn_failure_leaves_cache:
  assumes "getCachedResult rd now key h w = Undefined" and "fn args = Rejected e"
  shows "memorizedFunction opts rd fn now later key args h w
           = (Rejected e, h, w\<lparr>fnCalls := fnCalls w @ [args]\<rparr>)
       \<and> memory (snd (snd (memorizedFunction opts rd fn now later key args h w))) = memory w
       \<and> cacheOrder (snd (snd (memorizedFunction opts rd fn now later key args h w)))
           = cacheOrder w"
  using assms by (simp add: memorizedFunction_def)

text \<open>An expired entry under the key survives the failed call.\<close>

theorem fn_failure_leaves_cache_witness:
  "getCachedResult numberAsCached 7 ''key1''
       (fst (run \<lparr>ttl = Some (Num 5), maxCacheSize = Some (Num 1)\<rparr> numberAsCached mockFn
          [Invoke ''key1'' 2 0 0] (withMemorized emptyHeap)))
       (snd (run \<lparr>ttl = Some (Num 5), maxCacheSize = Some (Num 1)\<rparr> numberAsCached mockFn
          [Invoke ''key1'' 2 0 0] (withMemorized emptyHeap))) = Undefined
   \<and> memorizedFunction \<lparr>ttl = Some (Num 5), maxCacheSize = Some (Num 1)\<rparr> numberAsCached
       alwaysRejects 7 8 ''key1'' 2
       (fst (run \<lparr>ttl = Some (Num 5), maxCacheSize = Some (Num 1)\<rparr> numberAsCached mockFn
          [Invoke ''key1'' 2 0 0] (withMemorized emptyHeap)))
       (snd (run \<lparr>ttl = Some (Num 5), maxCacheSize = Some (Num 1)\<rparr> numberAsCached mockFn
          [Invoke ''key1'' 2 0 0] (withMemorized emptyHeap)))
     = (Rejected ''boom'',
        \<lparr>objects = (\<lambda>r. emptyObject)
           (0 := \<lparr>own = [''key1'' \<mapsto> \<lparr>value' = Val 4, expiration = Num 5\<rparr>],
                  proto = None\<rparr>),
         nextRef = 1\<rparr>,
        \<lparr>memory = 0, cacheOrder = [''key1''], fnCalls = [2, 2]\<rparr>)"
proof -
  let ?opts = "\<lparr>ttl = Some (Num 5), maxCacheSize = Some (Num 1)\<rparr>"
  let ?s = "run ?opts numberAsCached mockFn [Invoke ''key1'' 2 0 0] (withMemorized emptyHeap)"
  have s: "?s = (\<lparr>objects = (\<lambda>r. emptyObject)
           (0 := \<lparr>own = [''key1'' \<mapsto> \<lparr>value' = Val 4, expiration = Num 5\<rparr>],
                  proto = None\<rparr>),
         nextRef = 1\<rparr>,
        \<lparr>memory = 0, cacheOrder = [''key1''], fnCalls = [2]\<rparr>)"
    by (simp add: example_defs)
  have miss: "getCachedResult numberAsCached 7 ''key1'' (fst ?s) (snd ?s) = Undefined"
    unfolding s by (simp add: getCachedResult_def getProperty_def)
  show ?thesis
    using fn_failure_leaves_cache [where rd = numberAsCached and now = 7 and key = "''key1''"
        and h = "fst ?s" and w = "snd ?s" and fn = alwaysRejects and args = 2
        and e = "''boom''" and opts = ?opts and later = 8] miss
    unfolding s by (simp add: alwaysRejects_def)
qed

subsection \<open>Cache hits\<close>

text \<open>
  C4. Let \<^verbatim>\<open>memory[key]\<close> be an entry \<open>c\<close>. If its expiration is strictly greater than
  the current time and its value is not \<^verbatim>\<open>undefined\<close>, \<open>Invoke\<close> returns that value
  and heap, order log and the record of calls of the wrapped function are unchanged. If
  its value is \<^verbatim>\<open>undefined\<close>, the call is a miss: the wrapped function is invoked with
  the arguments of the call, the promise settles as the function's promise does, and a
  result \<open>r\<close> is stored as on any miss.
\<close>

theorem valid_entry_is_returned:
  assumes "getProperty (objects h (memory w)) key = Entry c"
  shows "(js_gt (expiration c) (Num (of_int now)) \<and> value' c \<noteq> Undefined
            \<longrightarrow> memorizedFunction opts rd fn now later key args h w
                  = (Fulfilled (value' c), h, w))
       \<and> (value' c = Undefined
            \<longrightarrow> fst (memorizedFunction opts rd fn now later key args h w) = fn args
                \<and> fnCalls (snd (snd (memorizedFunction opts rd fn now later key args h w)))
                    = fnCalls w @ [args]
                \<and> (fn args = Fulfilled r
                      \<longrightarrow> snd (memorizedFunction opts rd fn now later key args h w)
                            = storeInCache opts later key r h
                                (w\<lparr>fnCalls := fnCalls w @ [args]\<rparr>)))"
proof (intro conjI impI)
  assume "js_gt (expiration c) (Num (of_int now)) \<and> value' c \<noteq> Undefined"
  then show "memorizedFunction opts rd fn now later key args h w
      = (Fulfilled (value' c), h, w)"
    using assms by (simp add: memorizedFunction_hit)
next
  assume "value' c = Undefined"
  then have miss: "getCachedResult rd now key h w = Undefined"
    using assms by (simp add: getCachedResult_def)
  show "fst (memorizedFunction opts rd fn now later key args h w) = fn args"
    by (cases "fn args") (simp_all add: memorizedFunction_miss [OF miss])
  show "fnCalls (snd (snd (memorizedFunction opts rd fn now later key args h w)))
      = fnCalls w @ [args]"
    by (cases "fn args")
      (simp_all add: memorizedFunction_miss [OF miss] storeInCache_wrapper)
  show "snd (memorizedFunction opts rd fn now later key args h w)
      = storeInCache opts later key r h (w\<lparr>fnCalls := fnCalls w @ [args]\<rparr>)"
    if "fn args = Fulfilled r"
    using that by (simp add: memorizedFunction_miss [OF miss])
qed

text \<open>
  A hit on the entry stored by the test function, and a miss on an entry whose value is
  \<^verbatim>\<open>undefined\<close>, which the call overwrites.
\<close>

theorem valid_entry_is_returned_witness:
  "memorizedFunction \<lparr>ttl = None, maxCacheSize = None\<rparr> numberAsCached mockFn 5 6 ''key1'' 2
       (fst (run \<lparr>ttl = None, maxCacheSize = None\<rparr> numberAsCached mockFn
          [Invoke ''key1'' 2 0 0] (withMemorized emptyHeap)))
       (snd (run \<lparr>ttl = None, maxCacheSize = None\<rparr> numberAsCached mockFn
          [Invoke ''key1'' 2 0 0] (withMemorized emptyHeap)))
     = (Fulfilled (Val 4),
        run \<lparr>ttl = None, maxCacheSize = None\<rparr> numberAsCached mockFn
          [Invoke ''key1'' 2 0 0] (withMemorized emptyHeap))
   \<and> memorizedFunction \<lparr>ttl = None, maxCacheSize = None\<rparr> numberAsCached mockFn 5 6 ''key1'' 3
       (fst (run \<lparr>ttl = None, maxCacheSize = None\<rparr> numberAsCached returnsUndefined
          [Invoke ''key1'' 2 0 0] (withMemorized emptyHeap)))
       (snd (run \<lparr>ttl = None, maxCacheSize = None\<rparr> numberAsCached returnsUndefined
          [Invoke ''key1'' 2 0 0] (withMemorized emptyHeap)))
     = (Fulfilled (Val 6),
        \<lparr>objects = (\<lambda>r. emptyObject)
           (0 := \<lparr>own = [''key1'' \<mapsto> \<lparr>value' = Val 6, expiration = Infinity\<rparr>],
                  proto = None\<rparr>),
         nextRef = 1\<rparr>,
        \<lparr>memory = 0, cacheOrder = [''key1'', ''key1''], fnCalls = [2, 3]\<rparr>)"
proof -
  let ?opts = "\<lparr>ttl = None, maxCacheSize = None\<rparr>"
  let ?e = "\<lparr>value' = Val (4::int), expiration = Infinity\<rparr>"
  let ?u = "\<lparr>value' = Undefined :: int js, expiration = Infinity\<rparr>"
  let ?s = "run ?opts numberAsCached mockFn [Invoke ''key1'' 2 0 0] (withMemorized emptyHeap)"
  let ?t = "run ?opts numberAsCached returnsUndefined [Invoke ''key1'' 2 0 0]
              (withMemorized emptyHeap)"
  have s: "?s = (\<lparr>objects = (\<lambda>r. emptyObject)(0 := \<lparr>own = [''key1'' \<mapsto> ?e], proto = None\<rparr>),
                   nextRef = 1\<rparr>,
                 \<lparr>memory = 0, cacheOrder = [''key1''], fnCalls = [2]\<rparr>)"
    by (simp add: example_defs)
  have t: "?t = (\<lparr>objects = (\<lambda>r. emptyObject)(0 := \<lparr>own = [''key1'' \<mapsto> ?u], proto = None\<rparr>),
                   nextRef = 1\<rparr>,
                 \<lparr>memory = 0, cacheOrder = [''key1''], fnCalls = [2]\<rparr>)"
    by (simp add: example_defs)
  have hit: "memorizedFunction ?opts numberAsCached mockFn 5 6 ''key1'' 2 (fst ?s) (snd ?s)
      = (Fulfilled (Val 4), ?s)"
    using valid_entry_is_returned [where h = "fst ?s" and w = "snd ?s" and key = "''key1''"
        and c = ?e and now = 5 and opts = ?opts and rd = numberAsCached and fn = mockFn
        and later = 6 and args = 2]
    unfolding s by (simp add: getProperty_def)
  have miss: "fst (memorizedFunction ?opts numberAsCached mockFn 5 6 ''key1'' 3
        (fst ?t) (snd ?t)) = mockFn 3
      \<and> snd (memorizedFunction ?opts numberAsCached mockFn 5 6 ''key1'' 3 (fst ?t) (snd ?t))
        = storeInCache ?opts 6 ''key1'' (Val 6) (fst ?t)
            ((snd ?t)\<lparr>fnCalls := fnCalls (snd ?t) @ [3]\<rparr>)"
    using valid_entry_is_returned [where h = "fst ?t" and w = "snd ?t" and key = "''key1''"
        and c = ?u and now = 5 and opts = ?opts and rd = numberAsCached and fn = mockFn
        and later = 6 and args = 3 and r = "Val 6"]
    unfolding t by (simp add: getProperty_def mockFn_def)
  have "memorizedFunction ?opts numberAsCached mockFn 5 6 ''key1'' 3 (fst ?t) (snd ?t)
      = (mockFn 3, storeInCache ?opts 6 ''key1'' (Val 6) (fst ?t)
            ((snd ?t)\<lparr>fnCalls := fnCalls (snd ?t) @ [3]\<rparr>))"
    using miss by (metis prod.collapse)
  then have "memorizedFunction ?opts numberAsCached mockFn 5 6 ''key1'' 3 (fst ?t) (snd ?t)
      = (Fulfilled (Val 6),
        \<lparr>objects = (\<lambda>r. emptyObject)
           (0 := \<lparr>own = [''key1'' \<mapsto> \<lparr>value' = Val 6, expiration = Infinity\<rparr>],
                  proto = None\<rparr>),
         nextRef = 1\<rparr>,
        \<lparr>memory = 0, cacheOrder = [''key1'', ''key1''], fnCalls = [2, 3]\<rparr>)"
    unfolding t
    by (simp add: mockFn_def storeInCache_def writeEntry_def pushKey_def setProperty_def)
  with hit show ?thesis by simp
qed

subsection \<open>Snapshots\<close>

text \<open>
  C5 (amended). Let wrapper \<open>wA\<close> export its cache object, and let that object hold an
  entry \<open>c\<close> under \<open>key\<close>. Let a wrapper be constructed and the exported object be
  imported into it, and let nothing write to that object before the next \<open>Invoke\<close> of
  \<open>key\<close> on the new wrapper. If \<open>c\<close> has not expired at the time of that \<open>Invoke\<close>
  (its expiration is strictly greater than the clock then) and its value is not
  \<^verbatim>\<open>undefined\<close>, the call returns the value of \<open>c\<close>, changes nothing, and the new
  wrapper has not invoked the wrapped function.
\<close>

theorem import_reproduces_hit:
  assumes "memory wA < nextRef h"
    and "getProperty (objects h (exportMemory wA)) key = Entry c"
    and "withMemorized h = (h', wB)"
    and "js_gt (expiration c) (Num (of_int now))" and "value' c \<noteq> Undefined"
  shows "memorizedFunction opts rd fn now later key args h'
           (importMemory (exportMemory wA) wB)
         = (Fulfilled (value' c), h', importMemory (exportMemory wA) wB)
       \<and> fnCalls (importMemory (exportMemory wA) wB) = []"
proof -
  have "objects h' (memory wA) = objects h (memory wA)" and "fnCalls wB = []"
    using assms(1,3) by (auto simp add: withMemorized_def newObject_def)
  then have "getProperty (objects h' (memory (importMemory (exportMemory wA) wB))) key
      = Entry c" and "fnCalls (importMemory (exportMemory wA) wB) = []"
    using assms(2) by (simp_all add: importMemory_def exportMemory_def)
  then show ?thesis
    using assms(4,5) by (simp add: memorizedFunction_hit)
qed

text \<open>The test "should allow importing and exporting memory".\<close>

theorem import_reproduces_hit_witness:
  "memorizedFunction \<lparr>ttl = None, maxCacheSize = None\<rparr> numberAsCached mockFn 20 20 ''key1'' 2
       (fst (withMemorized
          (fst (run \<lparr>ttl = None, maxCacheSize = None\<rparr> numberAsCached mockFn
             [Invoke ''key1'' 2 0 0] (withMemorized emptyHeap))) :: int heap \<times> int wrapper))
       (importMemory
          (exportMemory (snd (run \<lparr>ttl = None, maxCacheSize = None\<rparr> numberAsCached mockFn
             [Invoke ''key1'' 2 0 0] (withMemorized emptyHeap))))
          (snd (withMemorized
             (fst (run \<lparr>ttl = None, maxCacheSize = None\<rparr> numberAsCached mockFn
                [Invoke ''key1'' 2 0 0] (withMemorized emptyHeap))) :: int heap \<times> int wrapper)))
     = (Fulfilled (Val 4),
        \<lparr>objects = (\<lambda>r. emptyObject)
           (0 := \<lparr>own = [''key1'' \<mapsto> \<lparr>value' = Val 4, expiration = Infinity\<rparr>],
                  proto = None\<rparr>),
         nextRef = 2\<rparr>,
        \<lparr>memory = 0, cacheOrder = [], fnCalls = []\<rparr>)"
proof -
  let ?opts = "\<lparr>ttl = None, maxCacheSize = None\<rparr>"
  let ?e = "\<lparr>value' = Val (4::int), expiration = Infinity\<rparr>"
  let ?h = "\<lparr>objects = (\<lambda>r. emptyObject)(0 := \<lparr>own = [''key1'' \<mapsto> ?e], proto = None\<rparr>),
             nextRef = 1\<rparr>"
  let ?wA = "\<lparr>memory = 0, cacheOrder = [''key1''], fnCalls = [2::int]\<rparr>"
  let ?h' = "\<lparr>objects = (\<lambda>r. emptyObject)(0 := \<lparr>own = [''key1'' \<mapsto> ?e], proto = None\<rparr>),
              nextRef = 2\<rparr>"
  let ?wB = "\<lparr>memory = 1, cacheOrder = [], fnCalls = [] :: int list\<rparr>"
  have a: "run ?opts numberAsCached mockFn [Invoke ''key1'' 2 0 0] (withMemorized emptyHeap)
      = (?h, ?wA)"
    by (simp add: example_defs)
  have b: "withMemorized ?h = (?h', ?wB)"
    by (simp add: withMemorized_def newObject_def emptyObject_def fun_eq_iff)
  show ?thesis
    using import_reproduces_hit [where wA = ?wA and h = ?h and key = "''key1''" and c = ?e
        and h' = ?h' and wB = ?wB and now = 20 and opts = ?opts and rd = numberAsCached
        and fn = mockFn and later = 20 and args = 2] b
    unfolding a
    by (simp add: getProperty_def exportMemory_def importMemory_def)
qed

text \<open>
  C5 as stated fails when the entry expires between the export and the lookup: stored at
  time 0 with \<open>ttl = 10\<close>, exported at time 5 (not yet expired), looked up on the
  importing wrapper at time 20, where the function is invoked and the result stored.
\<close>

theorem expired_after_export_counterexample:
  "own (objects
          (fst (run \<lparr>ttl = Some (Num 10), maxCacheSize = None\<rparr> numberAsCached mockFn
             [Invoke ''key1'' 2 0 0] (withMemorized emptyHeap)))
          (exportMemory (snd (run \<lparr>ttl = Some (Num 10), maxCacheSize = None\<rparr> numberAsCached
             mockFn [Invoke ''key1'' 2 0 0] (withMemorized emptyHeap))))) ''key1''
     = Some \<lparr>value' = Val 4, expiration = Num 10\<rparr>
   \<and> js_gt (Num 10) (Num (of_int 5))
   \<and> memorizedFunction \<lparr>ttl = Some (Num 10), maxCacheSize = None\<rparr> numberAsCached mockFn
       20 20 ''key1'' 2
       (fst (withMemorized
          (fst (run \<lparr>ttl = Some (Num 10), maxCacheSize = None\<rparr> numberAsCached mockFn
             [Invoke ''key1'' 2 0 0] (withMemorized emptyHeap))) :: int heap \<times> int wrapper))
       (importMemory
          (exportMemory (snd (run \<lparr>ttl = Some (Num 10), maxCacheSize = None\<rparr> numberAsCached
             mockFn [Invoke ''key1'' 2 0 0] (withMemorized emptyHeap))))
          (snd (withMemorized
             (fst (run \<lparr>ttl = Some (Num 10), maxCacheSize = None\<rparr> numberAsCached mockFn
                [Invoke ''key1'' 2 0 0] (withMemorized emptyHeap))) :: int heap \<times> int wrapper)))
     = (Fulfilled (Val 4),
        \<lparr>objects = (\<lambda>r. emptyObject)
           (0 := \<lparr>own = [''key1'' \<mapsto> \<lparr>value' = Val 4, expiration = Num 30\<rparr>],
                  proto = None\<rparr>),
         nextRef = 2\<rparr>,
        \<lparr>memory = 0, cacheOrder = [''key1''], fnCalls = [2]\<rparr>)"
  by (simp add: example_defs fun_eq_iff)

text \<open>
  The exported object is the cache itself, and the importing wrapper keeps it: when the
  exporting wrapper (\<open>maxCacheSize = 1\<close>) stores \<^verbatim>\<open>key2\<close> after the import, it deletes
  \<^verbatim>\<open>key1\<close> from the object both wrappers use, and the importing wrapper's \<open>Invoke\<close> of
  \<^verbatim>\<open>key1\<close> invokes the function.
\<close>

lemma snapshot_is_shared:
  "fnCalls (snd (snd (memorizedFunction \<lparr>ttl = None, maxCacheSize = Some (Num 1)\<rparr>
       numberAsCached mockFn 20 20 ''key1'' 2
       (fst (run \<lparr>ttl = None, maxCacheSize = Some (Num 1)\<rparr> numberAsCached mockFn
          [Invoke ''key2'' 3 10 10]
          (fst (withMemorized
             (fst (run \<lparr>ttl = None, maxCacheSize = Some (Num 1)\<rparr> numberAsCached mockFn
                [Invoke ''key1'' 2 0 0] (withMemorized emptyHeap))) :: int heap \<times> int wrapper),
           snd (run \<lparr>ttl = None, maxCacheSize = Some (Num 1)\<rparr> numberAsCached mockFn
                [Invoke ''key1'' 2 0 0] (withMemorized emptyHeap)))))
       (importMemory
          (exportMemory (snd (run \<lparr>ttl = None, maxCacheSize = Some (Num 1)\<rparr> numberAsCached
             mockFn [Invoke ''key1'' 2 0 0] (withMemorized emptyHeap))))
          (snd (withMemorized
             (fst (run \<lparr>ttl = None, maxCacheSize = Some (Num 1)\<rparr> numberAsCached mockFn
                [Invoke ''key1'' 2 0 0] (withMemorized emptyHeap))) :: int heap \<times> int wrapper)))))) = [2]"
  by (simp add: example_defs)

text \<open>
  C6. \<open>importMemory s\<close> makes \<open>memory\<close> refer to the object \<open>s\<close> and leaves the order
  log (and the record of calls) as it was. A lookup afterwards reads \<open>s\<close>: for an own
  property of \<open>s\<close> it compares the stored expiration with the clock and nothing else;
  for a key that \<open>s\<close> does not have (\<open>s\<close> with the ordinary prototype) it misses.
\<close>

theorem importMemory_replaces_cache:
  "memory (importMemory s w) = s
   \<and> cacheOrder (importMemory s w) = cacheOrder w
   \<and> fnCalls (importMemory s w) = fnCalls w
   \<and> (own (objects h s) key = Some c
        \<longrightarrow> getCachedResult rd now key h (importMemory s w)
              = (if js_gt (expiration c) (Num (of_int now)) then value' c else Undefined))
   \<and> (own (objects h s) key = None \<and> proto (objects h s) = None
        \<longrightarrow> getCachedResult rd now key h (importMemory s w) = Undefined)"
  by (simp add: importMemory_def getCachedResult_def getProperty_def)

theorem importMemory_replaces_cache_witness:
  "memory (importMemory 1 \<lparr>memory = 0, cacheOrder = [''key9''], fnCalls = [2::int]\<rparr>) = 1
   \<and> cacheOrder (importMemory 1 \<lparr>memory = 0, cacheOrder = [''key9''], fnCalls = [2::int]\<rparr>)
       = [''key9'']
   \<and> getCachedResult numberAsCached 7 ''key1''
        \<lparr>objects = (\<lambda>r. emptyObject)
           (1 := \<lparr>own = [''key1'' \<mapsto> \<lparr>value' = Val 4, expiration = Num 10\<rparr>],
                  proto = None\<rparr>),
         nextRef = 2\<rparr>
        (importMemory 1 \<lparr>memory = 0, cacheOrder = [''key9''], fnCalls = [2::int]\<rparr>) = Val 4
   \<and> getCachedResult numberAsCached 7 ''key2''
        \<lparr>objects = (\<lambda>r. emptyObject)
           (1 := \<lparr>own = [''key1'' \<mapsto> \<lparr>value' = Val 4, expiration = Num 10\<rparr>],
                  proto = None\<rparr>),
         nextRef = 2\<rparr>
        (importMemory 1 \<lparr>memory = 0, cacheOrder = [''key9''], fnCalls = [2::int]\<rparr>)
       = Undefined"
  using importMemory_replaces_cache [where s = 1
      and w = "\<lparr>memory = 0, cacheOrder = [''key9''], fnCalls = [2::int]\<rparr>"
      and h = "\<lparr>objects = (\<lambda>r. emptyObject)
           (1 := \<lparr>own = [''key1'' \<mapsto> \<lparr>value' = Val (4::int), expiration = Num 10\<rparr>],
                  proto = None\<rparr>),
         nextRef = 2\<rparr>"
      and key = "''key1''" and c = "\<lparr>value' = Val 4, expiration = Num 10\<rparr>"
      and rd = numberAsCached and now = 7]
    importMemory_replaces_cache [where s = 1
      and w = "\<lparr>memory = 0, cacheOrder = [''key9''], fnCalls = [2::int]\<rparr>"
      and h = "\<lparr>objects = (\<lambda>r. emptyObject)
           (1 := \<lparr>own = [''key1'' \<mapsto> \<lparr>value' = Val (4::int), expiration = Num 10\<rparr>],
                  proto = None\<rparr>),
         nextRef = 2\<rparr>"
      and key = "''key2''" and rd = numberAsCached and now = 7]
  by simp

subsection \<open>The size bound\<close>

lemma bounded_fnCalls [simp]: "bounded N h (w\<lparr>fnCalls := cs\<rparr>) = bounded N h w"
  by (simp add: bounded_def)







subsection \<open>Truthiness of the options\<close>

lemma storeInCache_ttl_zero:
  "storeInCache (opts\<lparr>ttl := Some (Num 0)\<rparr>) later key r h w
     = storeInCache (opts\<lparr>ttl := None\<rparr>) later key r h w"
  by (simp add: storeInCache_def writeEntry_def)

lemma memorizedFunction_ttl_zero:
  "memorizedFunction (opts\<lparr>ttl := Some (Num 0)\<rparr>) rd fn now later key args h w
     = memorizedFunction (opts\<lparr>ttl := None\<rparr>) rd fn now later key args h w"
  by (simp add: memorizedFunction_def storeInCache_ttl_zero Let_def split: settled.splits)

lemma ttl_zero_stored_entry:
  assumes "ttl opts = Some (Num 0)"
    and "maxCacheSize opts = None
         \<or> (maxCacheSize opts = Some (Num N) \<and> 1 \<le> N
             \<and> (cacheOrder w = [] \<or> hd (cacheOrder w) \<noteq> key
                 \<or> of_nat (length (cacheOrder w)) + 1 \<le> N))"
    and "getCachedResult rd now key h w = Undefined"
    and "fn args = Fulfilled r"
    and "memorizedFunction opts rd fn now later key args h w = (res, h', w')"
  shows "res = Fulfilled r
       \<and> getProperty (objects h' (memory w')) key
           = Entry \<lparr>value' = r, expiration = Infinity\<rparr>
       \<and> getCachedResult rd t key h' w' = r
       \<and> memorizedFunction (opts\<lparr>ttl := None\<rparr>) rd fn now later key args h w
           = (res, h', w')"
proof -
  let ?called = "w\<lparr>fnCalls := fnCalls w @ [args]\<rparr>"
  let ?s = "storeInCache opts later key r h ?called"
  have "(res, h', w') = (Fulfilled r, ?s)"
    using assms(3,4,5) by (simp add: memorizedFunction_miss)
  then have res: "res = Fulfilled r" and s: "?s = (h', w')"
    by simp_all
  have w': "memory w' = memory w"
    using storeInCache_wrapper [of opts later key r h ?called] by (simp add: s)
  have "maxCacheSize opts = None
         \<or> (maxCacheSize opts = Some (Num N) \<and> 1 \<le> N
             \<and> (cacheOrder ?called = [] \<or> hd (cacheOrder ?called) \<noteq> key
                 \<or> of_nat (length (cacheOrder ?called)) + 1 \<le> N))"
    using assms(2) by simp
  then have entry: "getProperty (objects h' (memory w')) key
      = Entry \<lparr>value' = r, expiration = Infinity\<rparr>"
    using storeInCache_keeps [of opts N ?called key later r h] assms(1)
    by (simp add: s w')
  then have "getCachedResult rd t key h' w' = r"
    by (simp add: getCachedResult_def)
  moreover have "opts = opts\<lparr>ttl := Some (Num 0)\<rparr>" using assms(1) by simp
  then have "memorizedFunction (opts\<lparr>ttl := None\<rparr>) rd fn now later key args h w
      = (res, h', w')"
    using memorizedFunction_ttl_zero [of opts rd fn now later key args h w] assms(5)
    by simp
  ultimately show ?thesis using res entry by simp
qed


text \<open>
  C9. A wrapper constructed with \<open>ttl = 0\<close> behaves as one constructed without
  \<open>ttl\<close>: every \<open>Invoke\<close> gives the same result, heap and wrapper. When an \<open>Invoke\<close>
  of \<open>key\<close> misses, the wrapped function resolves to \<open>r\<close>, and the store does not
  shift \<open>key\<close> itself from the order log (as in C1), then \<^verbatim>\<open>memory[key]\<close> is afterwards
  the entry with value \<open>r\<close> and expiration \<^verbatim>\<open>Infinity\<close>, and a lookup of \<open>key\<close> at any
  clock reading \<open>t\<close> yields \<open>r\<close>: the entry never expires.
\<close>

theorem ttl_zero_is_no_ttl:
  "memorizedFunction (opts\<lparr>ttl := Some (Num 0)\<rparr>) rd fn now later key args h w
     = memorizedFunction (opts\<lparr>ttl := None\<rparr>) rd fn now later key args h w
   \<and> (getCachedResult rd now key h w = Undefined \<and> fn args = Fulfilled r
        \<and> (maxCacheSize opts = None
             \<or> (maxCacheSize opts = Some (Num N) \<and> 1 \<le> N
                 \<and> (cacheOrder w = [] \<or> hd (cacheOrder w) \<noteq> key
                     \<or> of_nat (length (cacheOrder w)) + 1 \<le> N)))
        \<longrightarrow> fst (memorizedFunction (opts\<lparr>ttl := Some (Num 0)\<rparr>) rd fn now later key args
                  h w) = Fulfilled r
            \<and> getProperty
                 (objects
                    (fst (snd (memorizedFunction (opts\<lparr>ttl := Some (Num 0)\<rparr>) rd fn now
                       later key args h w)))
                    (memory (snd (snd (memorizedFunction (opts\<lparr>ttl := Some (Num 0)\<rparr>) rd
                       fn now later key args h w)))))
                 key
                = Entry \<lparr>value' = r, expiration = Infinity\<rparr>
            \<and> getCachedResult rd t key
                 (fst (snd (memorizedFunction (opts\<lparr>ttl := Some (Num 0)\<rparr>) rd fn now later
                    key args h w)))
                 (snd (snd (memorizedFunction (opts\<lparr>ttl := Some (Num 0)\<rparr>) rd fn now later
                    key args h w)))
                = r)"
proof (intro conjI impI)
  show "memorizedFunction (opts\<lparr>ttl := Some (Num 0)\<rparr>) rd fn now later key args h w
     = memorizedFunction (opts\<lparr>ttl := None\<rparr>) rd fn now later key args h w"
    by (rule memorizedFunction_ttl_zero)
next
  let ?zero = "opts\<lparr>ttl := Some (Num 0)\<rparr>"
  let ?call = "memorizedFunction ?zero rd fn now later key args h w"
  assume a: "getCachedResult rd now key h w = Undefined \<and> fn args = Fulfilled r
        \<and> (maxCacheSize opts = None
             \<or> (maxCacheSize opts = Some (Num N) \<and> 1 \<le> N
                 \<and> (cacheOrder w = [] \<or> hd (cacheOrder w) \<noteq> key
                     \<or> of_nat (length (cacheOrder w)) + 1 \<le> N)))"
  have call: "?call = (fst ?call, fst (snd ?call), snd (snd ?call))" by simp
  have keep: "maxCacheSize ?zero = None
             \<or> (maxCacheSize ?zero = Some (Num N) \<and> 1 \<le> N
                 \<and> (cacheOrder w = [] \<or> hd (cacheOrder w) \<noteq> key
                     \<or> of_nat (length (cacheOrder w)) + 1 \<le> N))"
    using a by simp
  have stored: "fst ?call = Fulfilled r
       \<and> getProperty (objects (fst (snd ?call)) (memory (snd (snd ?call)))) key
           = Entry \<lparr>value' = r, expiration = Infinity\<rparr>
       \<and> getCachedResult rd t key (fst (snd ?call)) (snd (snd ?call)) = r
       \<and> memorizedFunction (?zero\<lparr>ttl := None\<rparr>) rd fn now later key args h w
           = (fst ?call, fst (snd ?call), snd (snd ?call))"
    using a by (intro ttl_zero_stored_entry [OF _ keep _ _ call]) simp_all
  from stored show "fst ?call = Fulfilled r" by blast
  from stored show "getProperty (objects (fst (snd ?call)) (memory (snd (snd ?call)))) key
           = Entry \<lparr>value' = r, expiration = Infinity\<rparr>" by blast
  from stored show "getCachedResult rd t key (fst (snd ?call)) (snd (snd ?call)) = r"
    by blast
qed

text \<open>
  A first store with \<open>ttl = 0\<close> and \<open>maxCacheSize = 2\<close>; the entry is found at the
  largest clock reading there is.
\<close>

theorem ttl_zero_is_no_ttl_witness:
  "memorizedFunction \<lparr>ttl = Some (Num 0), maxCacheSize = Some (Num 2)\<rparr> numberAsCached mockFn
       5 6 ''key1'' 2 (fst (withMemorized emptyHeap :: int heap \<times> int wrapper))
       (snd (withMemorized emptyHeap))
     = (Fulfilled (Val 4),
        \<lparr>objects = (\<lambda>r. emptyObject)
           (0 := \<lparr>own = [''key1'' \<mapsto> \<lparr>value' = Val 4, expiration = Infinity\<rparr>],
                  proto = None\<rparr>),
         nextRef = 1\<rparr>,
        \<lparr>memory = 0, cacheOrder = [''key1''], fnCalls = [2]\<rparr>)
   \<and> getCachedResult numberAsCached 8640000000000000 ''key1''
        \<lparr>objects = (\<lambda>r. emptyObject)
           (0 := \<lparr>own = [''key1'' \<mapsto> \<lparr>value' = Val 4, expiration = Infinity\<rparr>],
                  proto = None\<rparr>),
         nextRef = 1\<rparr>
        \<lparr>memory = 0, cacheOrder = [''key1''], fnCalls = [2::int]\<rparr> = Val 4"
proof -
  let ?opts = "\<lparr>ttl = Some (Num 0), maxCacheSize = Some (Num 2)\<rparr>"
  let ?h0 = "fst (withMemorized emptyHeap :: int heap \<times> int wrapper)"
  let ?w0 = "snd (withMemorized emptyHeap :: int heap \<times> int wrapper)"
  let ?h1 = "\<lparr>objects = (\<lambda>r. emptyObject)
           (0 := \<lparr>own = [''key1'' \<mapsto> \<lparr>value' = Val (4::int), expiration = Infinity\<rparr>],
                  proto = None\<rparr>),
         nextRef = 1\<rparr>"
  let ?w1 = "\<lparr>memory = 0, cacheOrder = [''key1''], fnCalls = [2::int]\<rparr>"
  have call: "memorizedFunction ?opts numberAsCached mockFn 5 6 ''key1'' 2 ?h0 ?w0
      = (Fulfilled (Val 4), ?h1, ?w1)"
    by (simp add: example_defs)
  have "getCachedResult numberAsCached 8640000000000000 ''key1'' ?h1 ?w1 = Val 4"
    using ttl_zero_is_no_ttl [where opts = ?opts and N = 2 and w = ?w0 and key = "''key1''"
        and rd = numberAsCached and now = 5 and h = ?h0 and fn = mockFn and args = 2
        and r = "Val 4" and later = 6 and t = 8640000000000000] call
    by (simp add: getCachedResult_def getProperty_def withMemorized_def newObject_def
        emptyObject_def emptyHeap_def mockFn_def)
  with call show ?thesis by simp
qed

subsection \<open>Re-storing the oldest key\<close>

text \<open>
  C10. With \<open>maxCacheSize = 1\<close> and \<open>ttl = 1\<close>: a first \<open>Invoke\<close> of \<^verbatim>\<open>key1\<close> at
  time 0 stores the entry, so the cache holds \<^verbatim>\<open>key1\<close> and the order log is
  \<^verbatim>\<open>[key1]\<close>, of length \<open>N = 1\<close>. At time 5 the lookup of \<^verbatim>\<open>key1\<close> misses (the entry
  has expired). The second \<open>Invoke\<close> then writes a new entry under \<^verbatim>\<open>key1\<close>, pushes
  \<^verbatim>\<open>key1\<close> so that the log is \<^verbatim>\<open>[key1, key1]\<close>, and evicts the front \<^verbatim>\<open>key1\<close>, which
  deletes the entry just written: the call returns the fresh value 4, the cache object is
  empty, and \<^verbatim>\<open>key1\<close> is still in the log.
\<close>

theorem self_eviction_on_restore:
  "run \<lparr>ttl = Some (Num 1), maxCacheSize = Some (Num 1)\<rparr> numberAsCached mockFn
       [Invoke ''key1'' 2 0 0] (withMemorized emptyHeap)
     = (\<lparr>objects = (\<lambda>r. emptyObject)
           (0 := \<lparr>own = [''key1'' \<mapsto> \<lparr>value' = Val 4, expiration = Num 1\<rparr>],
                  proto = None\<rparr>),
         nextRef = 1\<rparr>,
        \<lparr>memory = 0, cacheOrder = [''key1''], fnCalls = [2]\<rparr>)
   \<and> getCachedResult numberAsCached 5 ''key1''
        \<lparr>objects = (\<lambda>r. emptyObject)
           (0 := \<lparr>own = [''key1'' \<mapsto> \<lparr>value' = Val 4, expiration = Num 1\<rparr>],
                  proto = None\<rparr>),
         nextRef = 1\<rparr>
        \<lparr>memory = 0, cacheOrder = [''key1''], fnCalls = [2::int]\<rparr> = Undefined
   \<and> writeEntry \<lparr>ttl = Some (Num 1), maxCacheSize = Some (Num 1)\<rparr> 5 ''key1'' (Val 4)
        \<lparr>objects = (\<lambda>r. emptyObject)
           (0 := \<lparr>own = [''key1'' \<mapsto> \<lparr>value' = Val 4, expiration = Num 1\<rparr>],
                  proto = None\<rparr>),
         nextRef = 1\<rparr>
        \<lparr>memory = 0, cacheOrder = [''key1''], fnCalls = [2, 2::int]\<rparr>
     = \<lparr>objects = (\<lambda>r. emptyObject)
           (0 := \<lparr>own = [''key1'' \<mapsto> \<lparr>value' = Val 4, expiration = Num 6\<rparr>],
                  proto = None\<rparr>),
         nextRef = 1\<rparr>
   \<and> pushKey ''key1'' \<lparr>memory = 0, cacheOrder = [''key1''], fnCalls = [2, 2::int]\<rparr>
     = \<lparr>memory = 0, cacheOrder = [''key1'', ''key1''], fnCalls = [2, 2]\<rparr>
   \<and> evictOldest
        \<lparr>objects = (\<lambda>r. emptyObject)
           (0 := \<lparr>own = [''key1'' \<mapsto> \<lparr>value' = Val (4::int), expiration = Num 6\<rparr>],
                  proto = None\<rparr>),
         nextRef = 1\<rparr>
        \<lparr>memory = 0, cacheOrder = [''key1'', ''key1''], fnCalls = [2, 2::int]\<rparr>
     = (\<lparr>objects = (\<lambda>r. emptyObject), nextRef = 1\<rparr>,
        \<lparr>memory = 0, cacheOrder = [''key1''], fnCalls = [2, 2]\<rparr>)
   \<and> memorizedFunction \<lparr>ttl = Some (Num 1), maxCacheSize = Some (Num 1)\<rparr> numberAsCached
        mockFn 5 5 ''key1'' 2
        \<lparr>objects = (\<lambda>r. emptyObject)
           (0 := \<lparr>own = [''key1'' \<mapsto> \<lparr>value' = Val 4, expiration = Num 1\<rparr>],
                  proto = None\<rparr>),
         nextRef = 1\<rparr>
        \<lparr>memory = 0, cacheOrder = [''key1''], fnCalls = [2]\<rparr>
     = (Fulfilled (Val 4),
        \<lparr>objects = (\<lambda>r. emptyObject), nextRef = 1\<rparr>,
        \<lparr>memory = 0, cacheOrder = [''key1''], fnCalls = [2, 2]\<rparr>)
   \<and> own (emptyObject :: int jsobject) ''key1'' = None"
  by (simp add: example_defs fun_eq_iff)

subsection \<open>Eviction and the number of cached entries\<close>

text \<open>
  C2. The code evaluated where it departs from the claim: a wrapper with
  \<open>maxCacheSize = 1\<close> imports an object holding \<^verbatim>\<open>key1\<close> and \<^verbatim>\<open>key2\<close>, and an
  \<open>Invoke\<close> of \<^verbatim>\<open>key3\<close> stores a third entry. The order log then holds one key, the
  comparison of line 121 is false, and nothing is evicted: the cache holds three entries.
\<close>

theorem import_then_store_exceeds_bound:
  "memorizedFunction \<lparr>ttl = None, maxCacheSize = Some (Num 1)\<rparr> numberAsCached mockFn
       0 0 ''key3'' 4
       \<lparr>objects = (\<lambda>r. emptyObject)
          (1 := \<lparr>own = [''key1'' \<mapsto> \<lparr>value' = Val 4, expiration = Infinity\<rparr>,
                         ''key2'' \<mapsto> \<lparr>value' = Val 6, expiration = Infinity\<rparr>],
                 proto = None\<rparr>),
        nextRef = 2\<rparr>
       (importMemory 1 (snd (withMemorized emptyHeap)))
     = (Fulfilled (Val 8),
        \<lparr>objects = (\<lambda>r. emptyObject)
          (1 := \<lparr>own = [''key1'' \<mapsto> \<lparr>value' = Val 4, expiration = Infinity\<rparr>,
                         ''key2'' \<mapsto> \<lparr>value' = Val 6, expiration = Infinity\<rparr>,
                         ''key3'' \<mapsto> \<lparr>value' = Val 8, expiration = Infinity\<rparr>],
                 proto = None\<rparr>),
         nextRef = 2\<rparr>,
        \<lparr>memory = 1, cacheOrder = [''key3''], fnCalls = [4]\<rparr>)
   \<and> card (dom [''key1'' \<mapsto> \<lparr>value' = Val (4::int), expiration = Infinity\<rparr>,
                 ''key2'' \<mapsto> \<lparr>value' = Val 6, expiration = Infinity\<rparr>,
                 ''key3'' \<mapsto> \<lparr>value' = Val 8, expiration = Infinity\<rparr>]) = 3"
  by (simp add: example_defs)

subsection \<open>Storing one key more than the bound\<close>

lemma store_below_bound:
  assumes "maxCacheSize opts = Some (Num (of_nat N))" and "ttl opts = None"
    and "length (cacheOrder w) < N" and "key \<noteq> ''__proto__''"
  shows "storeInCache opts now key r h w =
           (h\<lparr>objects := (objects h)(memory w :=
               (objects h (memory w))\<lparr>own := (own (objects h (memory w)))
                  (key \<mapsto> \<lparr>value' = r, expiration = Infinity\<rparr>)\<rparr>)\<rparr>,
            w\<lparr>cacheOrder := cacheOrder w @ [key]\<rparr>)"
proof -
  have "\<not> (1 + of_nat (length (cacheOrder w)) > (of_nat N :: rat))"
    using assms(3) by (metis Suc_leI not_less of_nat_Suc of_nat_le_iff)
  then show ?thesis
    using assms(1,2,4)
    by (simp add: storeInCache_def pushKey_def writeEntry_def setProperty_def Let_def)
qed

lemma store_at_bound:
  assumes "maxCacheSize opts = Some (Num (of_nat N))" and "ttl opts = None" and "0 < N"
    and "length (cacheOrder w) = N" and "cacheOrder w = k # ks" and "key \<noteq> ''__proto__''"
  shows "storeInCache opts now key r h w =
           (h\<lparr>objects := (objects h)(memory w :=
               (objects h (memory w))\<lparr>own := ((own (objects h (memory w)))
                  (key \<mapsto> \<lparr>value' = r, expiration = Infinity\<rparr>))(k := None)\<rparr>)\<rparr>,
            w\<lparr>cacheOrder := ks @ [key]\<rparr>)"
proof -
  have "1 + of_nat (length (cacheOrder w)) > (of_nat N :: rat)"
    using assms(4) by simp
  then show ?thesis
    using assms(1,2,3,5,6)
    by (simp add: storeInCache_def pushKey_def writeEntry_def setProperty_def
        evictOldest_def deleteProperty_def Let_def)
qed

lemma run_snoc: "run opts rd fn (ops @ [x]) s = step opts rd fn (run opts rd fn ops s) x"
  by (simp add: run_def)

lemma run_distinct_keys:
  assumes "maxCacheSize opts = Some (Num (of_nat N))" and "0 < N" and "ttl opts = None"
  shows "distinct keys \<Longrightarrow> ''__proto__'' \<notin> set keys
     \<Longrightarrow> (\<forall>k \<in> set keys. fn (args k) = Fulfilled (res k)) \<Longrightarrow>
     cacheOrder (snd (run opts rd fn (map (\<lambda>k. Invoke k (args k) (now k) (later k)) keys)
        (withMemorized h0)))
       = drop (length keys - N) keys
     \<and> own (objects
          (fst (run opts rd fn (map (\<lambda>k. Invoke k (args k) (now k) (later k)) keys)
             (withMemorized h0)))
          (memory (snd (run opts rd fn (map (\<lambda>k. Invoke k (args k) (now k) (later k)) keys)
             (withMemorized h0)))))
       = (\<lambda>k. if k \<in> set (drop (length keys - N) keys)
               then Some \<lparr>value' = res k, expiration = Infinity\<rparr> else None)
     \<and> proto (objects
          (fst (run opts rd fn (map (\<lambda>k. Invoke k (args k) (now k) (later k)) keys)
             (withMemorized h0)))
          (memory (snd (run opts rd fn (map (\<lambda>k. Invoke k (args k) (now k) (later k)) keys)
             (withMemorized h0)))))
       = None"
proof (induction keys rule: rev_induct)
  case Nil
  then show ?case
    by (simp add: run_def withMemorized_def newObject_def emptyObject_def)
next
  case (snoc x xs)
  let ?s = "run opts rd fn (map (\<lambda>k. Invoke k (args k) (now k) (later k)) xs)
      (withMemorized h0)"
  obtain h w where s: "?s = (h, w)" by (cases ?s)
  let ?obj = "objects h (memory w)"
  let ?kept = "drop (length xs - N) xs"
  let ?called = "w\<lparr>fnCalls := fnCalls w @ [args x]\<rparr>"
  let ?e = "\<lparr>value' = res x, expiration = Infinity\<rparr>"
  from snoc have order: "cacheOrder w = ?kept"
    and mem: "own ?obj = (\<lambda>k. if k \<in> set ?kept
               then Some \<lparr>value' = res k, expiration = Infinity\<rparr> else None)"
    and plain: "proto ?obj = None"
    by (simp_all add: s)
  from snoc.prems have fresh: "x \<notin> set xs" and dist: "distinct xs"
    and result: "fn (args x) = Fulfilled (res x)" and ordinary: "x \<noteq> ''__proto__''"
    by auto
  have "x \<notin> set ?kept" using fresh by (auto dest: in_set_dropD)
  then have miss: "getCachedResult rd (now x) x h w = Undefined"
    by (simp add: getCachedResult_def getProperty_def mem plain)
  have stepped: "run opts rd fn (map (\<lambda>k. Invoke k (args k) (now k) (later k)) (xs @ [x]))
      (withMemorized h0) = storeInCache opts (later x) x (res x) h ?called"
    using miss result by (simp add: run_snoc s memorizedFunction_def)
  show ?case
  proof (cases "length xs < N")
    case True
    then have all: "?kept = xs" "drop (length (xs @ [x]) - N) (xs @ [x]) = xs @ [x]"
      by simp_all
    have "length (cacheOrder ?called) < N" using True order all by simp
    then have "storeInCache opts (later x) x (res x) h ?called =
        (h\<lparr>objects := (objects h)(memory ?called :=
               (objects h (memory ?called))\<lparr>own := (own (objects h (memory ?called)))
                  (x \<mapsto> ?e)\<rparr>)\<rparr>,
         ?called\<lparr>cacheOrder := cacheOrder ?called @ [x]\<rparr>)"
      using assms(1,3) ordinary by (rule_tac store_below_bound)
    then show ?thesis
      unfolding stepped all(2) using order mem plain all(1)
      by (auto simp add: fun_eq_iff)
  next
    case False
    define i where "i = length xs - N"
    have i: "i < length xs" "length xs - i = N" "length (xs @ [x]) - N = Suc i"
      using False assms(2) by (simp_all add: i_def)
    have kept: "?kept = xs ! i # drop (Suc i) xs"
      using i(1) by (simp add: i_def Cons_nth_drop_Suc)
    have notin: "xs ! i \<notin> set (drop (Suc i) xs)"
      using dist i(1) by (metis kept distinct.simps(2) distinct_drop i_def)
    have ne: "xs ! i \<noteq> x" using fresh i(1) by (metis nth_mem)
    have len: "length (cacheOrder ?called) = N"
      using order i(2) by (simp add: i_def)
    have log: "cacheOrder ?called = xs ! i # drop (Suc i) xs"
      using order kept by simp
    have "storeInCache opts (later x) x (res x) h ?called =
        (h\<lparr>objects := (objects h)(memory ?called :=
               (objects h (memory ?called))\<lparr>own := ((own (objects h (memory ?called)))
                  (x \<mapsto> ?e))(xs ! i := None)\<rparr>)\<rparr>,
         ?called\<lparr>cacheOrder := drop (Suc i) xs @ [x]\<rparr>)"
      using assms(1,3,2) len log ordinary by (rule store_at_bound)
    moreover have "drop (Suc i) (xs @ [x]) = drop (Suc i) xs @ [x]"
      using i(1) by simp
    moreover have "own ?obj = (\<lambda>k. if k = xs ! i \<or> k \<in> set (drop (Suc i) xs)
               then Some \<lparr>value' = res k, expiration = Infinity\<rparr> else None)"
      using mem kept by (simp add: fun_eq_iff)
    ultimately show ?thesis
      unfolding stepped i(3) using notin ne fresh plain
      by (auto simp add: fun_eq_iff dest: in_set_dropD)
  qed
qed

text \<open>
  C7 (amended). With \<open>maxCacheSize = N > 0\<close> and no \<open>ttl\<close>, starting from a newly
  constructed wrapper, let \<open>N + 1\<close> distinct keys, none of them \<^verbatim>\<open>__proto__\<close>, be stored
  in order by successful \<open>Invoke\<close> calls, the call for key \<open>k\<close> resolving to \<open>res k\<close>,
  and let the result stored for the last key be other than \<^verbatim>\<open>undefined\<close>. Then the first
  key is no longer in the cache, and from that state an \<open>Invoke\<close> of the first key
  invokes the wrapped function again, while an \<open>Invoke\<close> of the last key returns its
  stored value and changes nothing (in particular, does not invoke the wrapped function).
\<close>

theorem oldest_of_N_plus_one_is_evicted:
  assumes "maxCacheSize opts = Some (Num (of_nat N))" and "0 < N" and "ttl opts = None"
    and "distinct keys" and "length keys = N + 1" and "''__proto__'' \<notin> set keys"
    and "\<forall>k \<in> set keys. fn (args k) = Fulfilled (res k)"
    and "res (last keys) \<noteq> Undefined"
    and "run opts rd fn (map (\<lambda>k. Invoke k (args k) (now k) (later k)) keys)
           (withMemorized h0) = (h, w)"
  shows "own (objects h (memory w)) (hd keys) = None
       \<and> cacheOrder w = tl keys
       \<and> fst (memorizedFunction opts rd fn t1 t1' (hd keys) a1 h w) = fn a1
       \<and> fnCalls (snd (snd (memorizedFunction opts rd fn t1 t1' (hd keys) a1 h w)))
           = fnCalls w @ [a1]
       \<and> memorizedFunction opts rd fn t2 t2' (last keys) a2 h w
           = (Fulfilled (res (last keys)), h, w)"
proof -
  have one: "length keys - N = 1" using assms(5) by simp
  have inv: "cacheOrder w = tl keys"
    "own (objects h (memory w)) = (\<lambda>k. if k \<in> set (tl keys)
               then Some \<lparr>value' = res k, expiration = Infinity\<rparr> else None)"
    "proto (objects h (memory w)) = None"
    using run_distinct_keys [of opts N keys fn args res rd now later h0]
      assms(1,2,3,4,6,7,9) one
    by (simp_all add: drop_Suc)
  obtain k ks where keys: "keys = k # ks" "ks \<noteq> []"
    using assms(2,5) by (cases keys) auto
  have gone: "own (objects h (memory w)) (hd keys) = None"
    using assms(4) keys by (simp add: inv(2))
  then have miss: "getCachedResult rd t1 (hd keys) h w = Undefined"
    by (simp add: getCachedResult_def getProperty_def inv(3))
  have again: "fst (memorizedFunction opts rd fn t1 t1' (hd keys) a1 h w) = fn a1"
    "fnCalls (snd (snd (memorizedFunction opts rd fn t1 t1' (hd keys) a1 h w)))
      = fnCalls w @ [a1]"
    by (cases "fn a1"; simp add: memorizedFunction_miss [OF miss] storeInCache_wrapper)+
  have "last keys \<in> set (tl keys)" using keys by simp
  then have "getProperty (objects h (memory w)) (last keys)
      = Entry \<lparr>value' = res (last keys), expiration = Infinity\<rparr>"
    by (simp add: getProperty_def inv(2))
  then have "memorizedFunction opts rd fn t2 t2' (last keys) a2 h w
      = (Fulfilled (value' \<lparr>value' = res (last keys), expiration = Infinity\<rparr>), h, w)"
    using assms(8) by (rule_tac memorizedFunction_hit) simp_all
  with gone inv(1) again show ?thesis by simp
qed

text \<open>The test "should not exceed max cache size": three keys, \<open>maxCacheSize = 2\<close>.\<close>

theorem oldest_of_N_plus_one_is_evicted_witness:
  "run \<lparr>ttl = None, maxCacheSize = Some (Num 2)\<rparr> numberAsCached mockFn
        [Invoke ''key1'' 2 0 0, Invoke ''key2'' 3 0 0, Invoke ''key3'' 4 0 0]
        (withMemorized emptyHeap)
     = (\<lparr>objects = (\<lambda>r. emptyObject)
           (0 := \<lparr>own = [''key2'' \<mapsto> \<lparr>value' = Val 6, expiration = Infinity\<rparr>,
                          ''key3'' \<mapsto> \<lparr>value' = Val 8, expiration = Infinity\<rparr>],
                  proto = None\<rparr>),
         nextRef = 1\<rparr>,
        \<lparr>memory = 0, cacheOrder = [''key2'', ''key3''], fnCalls = [2, 3, 4]\<rparr>)
   \<and> fst (memorizedFunction \<lparr>ttl = None, maxCacheSize = Some (Num 2)\<rparr> numberAsCached mockFn
        5 5 ''key1'' 2
        \<lparr>objects = (\<lambda>r. emptyObject)
           (0 := \<lparr>own = [''key2'' \<mapsto> \<lparr>value' = Val 6, expiration = Infinity\<rparr>,
                          ''key3'' \<mapsto> \<lparr>value' = Val 8, expiration = Infinity\<rparr>],
                  proto = None\<rparr>),
         nextRef = 1\<rparr>
        \<lparr>memory = 0, cacheOrder = [''key2'', ''key3''], fnCalls = [2, 3, 4]\<rparr>)
       = Fulfilled (Val 4)
   \<and> fnCalls (snd (snd (memorizedFunction \<lparr>ttl = None, maxCacheSize = Some (Num 2)\<rparr>
        numberAsCached mockFn 5 5 ''key1'' 2
        \<lparr>objects = (\<lambda>r. emptyObject)
           (0 := \<lparr>own = [''key2'' \<mapsto> \<lparr>value' = Val 6, expiration = Infinity\<rparr>,
                          ''key3'' \<mapsto> \<lparr>value' = Val 8, expiration = Infinity\<rparr>],
                  proto = None\<rparr>),
         nextRef = 1\<rparr>
        \<lparr>memory = 0, cacheOrder = [''key2'', ''key3''], fnCalls = [2, 3, 4]\<rparr>)))
       = [2, 3, 4, 2]
   \<and> memorizedFunction \<lparr>ttl = None, maxCacheSize = Some (Num 2)\<rparr> numberAsCached mockFn
        5 5 ''key3'' 4
        \<lparr>objects = (\<lambda>r. emptyObject)
           (0 := \<lparr>own = [''key2'' \<mapsto> \<lparr>value' = Val 6, expiration = Infinity\<rparr>,
                          ''key3'' \<mapsto> \<lparr>value' = Val 8, expiration = Infinity\<rparr>],
                  proto = None\<rparr>),
         nextRef = 1\<rparr>
        \<lparr>memory = 0, cacheOrder = [''key2'', ''key3''], fnCalls = [2, 3, 4]\<rparr>
       = (Fulfilled (Val 8),
          \<lparr>objects = (\<lambda>r. emptyObject)
           (0 := \<lparr>own = [''key2'' \<mapsto> \<lparr>value' = Val 6, expiration = Infinity\<rparr>,
                          ''key3'' \<mapsto> \<lparr>value' = Val 8, expiration = Infinity\<rparr>],
                  proto = None\<rparr>),
           nextRef = 1\<rparr>,
          \<lparr>memory = 0, cacheOrder = [''key2'', ''key3''], fnCalls = [2, 3, 4]\<rparr>)"
proof -
  let ?opts = "\<lparr>ttl = None, maxCacheSize = Some (Num 2)\<rparr>"
  let ?h = "\<lparr>objects = (\<lambda>r. emptyObject)
           (0 := \<lparr>own = [''key2'' \<mapsto> \<lparr>value' = Val (6::int), expiration = Infinity\<rparr>,
                          ''key3'' \<mapsto> \<lparr>value' = Val 8, expiration = Infinity\<rparr>],
                  proto = None\<rparr>),
         nextRef = 1\<rparr>"
  let ?w = "\<lparr>memory = 0, cacheOrder = [''key2'', ''key3''], fnCalls = [2, 3, 4::int]\<rparr>"
  have r: "run ?opts numberAsCached mockFn
        [Invoke ''key1'' 2 0 0, Invoke ''key2'' 3 0 0, Invoke ''key3'' 4 0 0]
        (withMemorized emptyHeap) = (?h, ?w)"
    by (simp add: example_defs fun_eq_iff)
  show ?thesis
    using oldest_of_N_plus_one_is_evicted [where opts = ?opts and N = 2
        and keys = "[''key1'', ''key2'', ''key3'']" and fn = mockFn
        and args = "\<lambda>k. if k = ''key1'' then 2 else if k = ''key2'' then 3 else 4"
        and res = "\<lambda>k. Val (if k = ''key1'' then 4 else if k = ''key2'' then 6 else 8)"
        and rd = numberAsCached and now = "\<lambda>k. 0" and later = "\<lambda>k. 0"
        and ?h0.0 = emptyHeap and h = ?h and w = ?w
        and ?t1.0 = 5 and t1' = 5 and ?a1.0 = 2 and ?t2.0 = 5 and t2' = 5 and ?a2.0 = 4] r
    by (simp add: mockFn_def)
qed

text \<open>
  C7 as stated fails for a wrapped function resolving to \<^verbatim>\<open>undefined\<close>: with
  \<open>maxCacheSize = 1\<close>, after \<^verbatim>\<open>key1\<close> and \<^verbatim>\<open>key2\<close> have been stored the cache holds
  \<^verbatim>\<open>key2\<close>, and a further \<open>Invoke\<close> of \<^verbatim>\<open>key2\<close> invokes the function a third time.
\<close>

theorem undefined_last_key_counterexample:
  "run \<lparr>ttl = None, maxCacheSize = Some (Num 1)\<rparr> numberAsCached returnsUndefined
        [Invoke ''key1'' 2 0 0, Invoke ''key2'' 3 1 1] (withMemorized emptyHeap)
     = (\<lparr>objects = (\<lambda>r. emptyObject)
           (0 := \<lparr>own = [''key2'' \<mapsto> \<lparr>value' = Undefined, expiration = Infinity\<rparr>],
                  proto = None\<rparr>),
         nextRef = 1\<rparr>,
        \<lparr>memory = 0, cacheOrder = [''key2''], fnCalls = [2, 3]\<rparr>)
   \<and> fnCalls (snd (run \<lparr>ttl = None, maxCacheSize = Some (Num 1)\<rparr> numberAsCached
        returnsUndefined
        [Invoke ''key1'' 2 0 0, Invoke ''key2'' 3 1 1, Invoke ''key2'' 3 2 2]
        (withMemorized emptyHeap))) = [2, 3, 3]"
  by (simp add: example_defs fun_eq_iff)

text \<open>
  The key \<^verbatim>\<open>__proto__\<close> is outside C7 as amended: its store sets the prototype, the
  eviction deletes nothing, and a further \<open>Invoke\<close> of it is a hit (two calls of the
  function, not three).
\<close>

lemma proto_key_is_not_evicted:
  "run \<lparr>ttl = None, maxCacheSize = Some (Num 1)\<rparr> numberAsCached mockFn
        [Invoke ''__proto__'' 2 0 0, Invoke ''key2'' 3 1 1, Invoke ''__proto__'' 2 2 2]
        (withMemorized emptyHeap)
     = (\<lparr>objects = (\<lambda>r. emptyObject)
           (0 := \<lparr>own = [''key2'' \<mapsto> \<lparr>value' = Val 6, expiration = Infinity\<rparr>],
                  proto = Some \<lparr>value' = Val 4, expiration = Infinity\<rparr>\<rparr>),
         nextRef = 1\<rparr>,
        \<lparr>memory = 0, cacheOrder = [''key2''], fnCalls = [2, 3]\<rparr>)"
  by (simp add: example_defs Let_def fun_eq_iff)

end
